theory Spec2Isabelle
  imports Complex_Main
begin

section \<open>DualPol: the retrieval engine of \<^verbatim>\<open>dualpol.py\<close>\<close>

text \<open>
  The theory embeds the class \<^verbatim>\<open>DualPolRetrieval\<close>. The Python object \<^verbatim>\<open>self\<close>
  is a record that every method takes and returns; an exception is the left summand of the
  result. What a run prints, what it passes to \<^verbatim>\<open>warnings.warn\<close> and which algorithm
  of \<^verbatim>\<open>csu_radartools\<close> it invokes is appended, in order, to the component
  \<open>out\<close> of the record. The algorithms of \<^verbatim>\<open>csu_radartools\<close>, \<^verbatim>\<open>skewt\<close> and
  the numerical routines of numpy and Py-ART are parameters, collected in the record
  \<open>externals\<close>; they are taken to return.

  Gate values are real numbers. A two-dimensional array (ray by gate) is the list of its
  entries in row-major order, so that a shape is a length.
\<close>

subsection \<open>Exceptions and observable events\<close>

datatype pyerr =
    KeyError string
  | AttributeError string
  | IndexError
  | ValueError
  | UnboundLocalError string

datatype event = Printed string | Warned string | Called string

subsection \<open>numpy arrays and masked arrays\<close>

text \<open>
  \<open>Plain\<close> is a \<^verbatim>\<open>numpy.ndarray\<close>, which has no attribute \<^verbatim>\<open>mask\<close> and accepts
  none. \<open>Masked\<close> is a \<^verbatim>\<open>numpy.ma.MaskedArray\<close> with a soft mask (numpy's default);
  its mask is either \<^verbatim>\<open>numpy.ma.nomask\<close>, a scalar, or a boolean array.
  Arrays are values: two fields of a volume are taken not to share one array object.
\<close>

datatype ma_mask = NoMask | MaskArr "bool list"

datatype ndarray = Plain "real list" | Masked "real list" ma_mask

fun arr_values :: "ndarray \<Rightarrow> real list" where
  "arr_values (Plain vs) = vs"
| "arr_values (Masked vs m) = vs"

fun hasattr_mask :: "ndarray \<Rightarrow> bool" where
  "hasattr_mask (Plain vs) = False"
| "hasattr_mask (Masked vs m) = True"

text \<open>The attribute \<^verbatim>\<open>.mask\<close>: absent on an ndarray.\<close>

fun get_mask :: "ndarray \<Rightarrow> pyerr + ma_mask" where
  "get_mask (Plain vs) = Inl (AttributeError ''mask'')"
| "get_mask (Masked vs m) = Inr m"

text \<open>
  \<^verbatim>\<open>numpy.ma.getmaskarray\<close>: the mask gate for gate, all \<open>False\<close> when there is no
  mask.
\<close>

fun getmaskarray :: "ndarray \<Rightarrow> bool list" where
  "getmaskarray (Plain vs) = replicate (length vs) False"
| "getmaskarray (Masked vs NoMask) = replicate (length vs) False"
| "getmaskarray (Masked vs (MaskArr bs)) = bs"

text \<open>\<^verbatim>\<open>MaskedArray.filled(fill_value)\<close>: the values, with the fill value at masked gates.\<close>

fun filled :: "ndarray \<Rightarrow> real \<Rightarrow> real list" where
  "filled (Plain vs) fv = vs"
| "filled (Masked vs NoMask) fv = vs"
| "filled (Masked vs (MaskArr bs)) fv =
     map (\<lambda>i. if i < length bs \<and> bs ! i then fv else vs ! i) [0..<length vs]"

text \<open>
  \<^verbatim>\<open>numpy.ma.asanyarray\<close>: an ndarray is viewed as a masked array without mask, a
  masked array is passed through with the mask it has.
\<close>

fun asanyarray :: "ndarray \<Rightarrow> ndarray" where
  "asanyarray (Plain vs) = Masked vs NoMask"
| "asanyarray (Masked vs m) = Masked vs m"

text \<open>
  Assignment through \<^verbatim>\<open>.flat\<close>: the source is repeated when it is shorter than the
  target and cut when it is longer; an empty source leaves the target as it is.
\<close>

definition flat_assign :: "bool list \<Rightarrow> bool list \<Rightarrow> bool list" where
  "flat_assign cur src =
     (if src = [] then cur
      else map (\<lambda>i. src ! (i mod length src)) [0..<length cur])"

text \<open>
  \<^verbatim>\<open>setattr(a, 'mask', m)\<close>. An ndarray raises \<^verbatim>\<open>AttributeError\<close>. On a masked
  array the setter of a soft mask returns at once when both masks are \<^verbatim>\<open>nomask\<close>;
  otherwise it makes sure that the array has a mask array of its own shape and writes
  \<open>m\<close> into it, a scalar to every gate and an array through \<^verbatim>\<open>.flat\<close>.
\<close>

fun setattr_mask :: "ndarray \<Rightarrow> ma_mask \<Rightarrow> pyerr + ndarray" where
  "setattr_mask (Plain vs) m = Inl (AttributeError ''mask'')"
| "setattr_mask (Masked vs NoMask) NoMask = Inr (Masked vs NoMask)"
| "setattr_mask (Masked vs (MaskArr cur)) NoMask =
     Inr (Masked vs (MaskArr (replicate (length cur) False)))"
| "setattr_mask (Masked vs NoMask) (MaskArr bs) =
     Inr (Masked vs (MaskArr (flat_assign (replicate (length vs) False) bs)))"
| "setattr_mask (Masked vs (MaskArr cur)) (MaskArr bs) =
     Inr (Masked vs (MaskArr (flat_assign cur bs)))"

text \<open>
  \<^verbatim>\<open>numpy.logical_or\<close> on two boolean arrays: arrays of different shapes (none of
  which is taken to broadcast) raise \<^verbatim>\<open>ValueError\<close>.
\<close>

definition logical_or :: "bool list \<Rightarrow> bool list \<Rightarrow> pyerr + bool list" where
  "logical_or xs ys =
     (if length xs = length ys then Inr (map2 (\<or>) xs ys) else Inl ValueError)"

text \<open>
  \<^verbatim>\<open>a[m] = v\<close> with a boolean array \<open>m\<close>, which must have the shape of \<open>a\<close>.
\<close>

definition assign_where :: "real list \<Rightarrow> bool list \<Rightarrow> real \<Rightarrow> pyerr + real list" where
  "assign_where vs m v =
     (if length m = length vs then Inr (map2 (\<lambda>x b. if b then v else x) vs m)
      else Inl IndexError)"

text \<open>\<^verbatim>\<open>numpy.argmax\<close>: the first index of the greatest entry.\<close>

fun argmax_from :: "real list \<Rightarrow> nat \<Rightarrow> nat \<Rightarrow> real \<Rightarrow> nat" where
  "argmax_from [] i best bv = best"
| "argmax_from (x # xs) i best bv =
     (if bv < x then argmax_from xs (Suc i) i x else argmax_from xs (Suc i) best bv)"

definition argmax :: "real list \<Rightarrow> nat" where
  "argmax xs = (case xs of [] \<Rightarrow> 0 | x # ys \<Rightarrow> argmax_from ys 1 0 x)"

text \<open>
  \<^verbatim>\<open>numpy.argmax(scores, axis=0) + 1\<close> for one array of scores per category: at each
  gate, the category of the greatest score, counted from 1.
\<close>

definition argmax_axis0_plus1 :: "real list list \<Rightarrow> real list" where
  "argmax_axis0_plus1 scores =
     (case scores of
        [] \<Rightarrow> []
      | s # ss \<Rightarrow> map (\<lambda>g. real (argmax (map (\<lambda>c. c ! g) scores) + 1)) [0..<length s])"

subsection \<open>The radar volume\<close>

text \<open>
  A field of the volume is the dictionary that Py-ART keeps for it. The key
  \<^verbatim>\<open>_FillValue\<close> may be absent.
\<close>

record field =
  data :: ndarray
  units :: string
  long_name :: string
  standard_name :: string
  FillValue :: "real option"

text \<open>The dictionary \<^verbatim>\<open>radar.fields\<close> is the component \<open>rfields\<close>.\<close>

record volume =
  rfields :: "string \<rightharpoonup> field"
  nrays :: nat
  ngates :: nat
  range_data :: "real list"
  azimuth_data :: "real list"
  elevation_data :: "real list"
  altitude_data :: real

text \<open>
  \<^verbatim>\<open>Radar.add_field(name, dic, replace_existing=True)\<close> of Py-ART: the data must
  have the shape of the volume, \<^verbatim>\<open>(nrays, ngates)\<close>; an existing field of that name is
  replaced.
\<close>

definition add_field :: "volume \<Rightarrow> string \<Rightarrow> field \<Rightarrow> pyerr + volume" where
  "add_field r name dic =
     (if length (arr_values (data dic)) \<noteq> nrays r * ngates r then Inl ValueError
      else Inr (r\<lparr>rfields := (rfields r)(name \<mapsto> dic)\<rparr>))"

text \<open>\<^verbatim>\<open>radar.fields[name]\<close>.\<close>

definition lookup_field :: "volume \<Rightarrow> string \<Rightarrow> pyerr + field" where
  "lookup_field r name =
     (case rfields r name of None \<Rightarrow> Inl (KeyError name) | Some f \<Rightarrow> Inr f)"

text \<open>\<^verbatim>\<open>name in radar.fields\<close>.\<close>

definition has_field :: "volume \<Rightarrow> string \<Rightarrow> bool" where
  "has_field r name = (rfields r name \<noteq> None)"

text \<open>\<^verbatim>\<open>numpy.meshgrid(xs, ys)\<close>: both grids have one row per entry of \<open>ys\<close>.\<close>

definition meshgrid :: "real list \<Rightarrow> real list \<Rightarrow> real list \<times> real list" where
  "meshgrid xs ys =
     (concat (replicate (length ys) xs), concat (map (\<lambda>y. replicate (length xs) y) ys))"

subsection \<open>Module constants, keyword arguments and external algorithms\<close>

definition VERSION :: string where
  "VERSION = ''0.9''"

definition RNG_MULT :: real where
  "RNG_MULT = 1000"

definition BAD :: real where
  "BAD = - 32768"

definition DEFAULT_SDP :: real where
  "DEFAULT_SDP = 12"

text \<open>
  The argument \<^verbatim>\<open>sounding\<close>: \<^verbatim>\<open>None\<close>, the name of a file, or a dictionary whose
  entries \<^verbatim>\<open>'T'\<close> and \<^verbatim>\<open>'z'\<close> may be missing.
\<close>

datatype sounding_arg =
    NoSounding
  | SoundingFile string
  | SoundingDict "ndarray option" "real list option"

text \<open>
  The keyword arguments as \<^verbatim>\<open>check_kwargs\<close> returns them, every key of
  \<^verbatim>\<open>DEFAULT_KW\<close> present.
\<close>

record kwargs =
  kw_dz :: string
  kw_dr :: string
  kw_dp :: "string option"
  kw_rh :: string
  kw_kd :: "string option"
  kw_ld :: "string option"
  kw_sounding :: sounding_arg
  kw_verbose :: bool
  kw_thresh_sdp :: real
  kw_fhc_T_factor :: real
  kw_fhc_weights :: "(string \<times> real) list"
  kw_name_fhc :: string
  kw_band :: string
  kw_fhc_method :: string
  kw_kdp_method :: string
  kw_bad :: real
  kw_use_temp :: bool
  kw_ice_flag :: bool
  kw_dsd_flag :: bool
  kw_fhc_flag :: bool
  kw_rain_method :: string
  kw_precip_flag :: bool
  kw_liquid_ice_flag :: bool
  kw_winter :: bool
  kw_gs :: real
  kw_qc_flag :: bool
  kw_kdp_window :: real
  kw_dz_range :: "(real \<times> real) list"
  kw_name_sdp :: string
  kw_thresh_dr :: "real list"
  kw_speckle :: nat

text \<open>
  \<^verbatim>\<open>DEFAULT_KW\<close>. Three of its entries are constants of \<^verbatim>\<open>csu_radartools\<close>
  (\<^verbatim>\<open>csu_fhc.DEFAULT_WEIGHTS\<close>, \<^verbatim>\<open>csu_misc.DEFAULT_DZ_RANGE\<close>,
  \<^verbatim>\<open>csu_misc.DEFAULT_DR_THRESH\<close>) and are parameters here.
\<close>

definition DEFAULT_KW ::
  "(string \<times> real) list \<Rightarrow> (real \<times> real) list \<Rightarrow> real list \<Rightarrow> kwargs" where
  "DEFAULT_KW DEFAULT_WEIGHTS DEFAULT_DZ_RANGE DEFAULT_DR_THRESH =
     \<lparr>kw_dz = ''DZ'', kw_dr = ''DR'', kw_dp = None, kw_rh = ''RH'',
      kw_kd = None, kw_ld = None, kw_sounding = NoSounding,
      kw_verbose = False, kw_thresh_sdp = DEFAULT_SDP, kw_fhc_T_factor = 1,
      kw_fhc_weights = DEFAULT_WEIGHTS, kw_name_fhc = ''FH'', kw_band = ''S'',
      kw_fhc_method = ''hybrid'', kw_kdp_method = ''CSU'', kw_bad = BAD,
      kw_use_temp = True, kw_ice_flag = False, kw_dsd_flag = True,
      kw_fhc_flag = True, kw_rain_method = ''hidro'', kw_precip_flag = True,
      kw_liquid_ice_flag = True, kw_winter = False, kw_gs = 150,
      kw_qc_flag = False, kw_kdp_window = 3,
      kw_dz_range = DEFAULT_DZ_RANGE, kw_name_sdp = ''SDP_CSU'',
      kw_thresh_dr = DEFAULT_DR_THRESH, kw_speckle = 4\<rparr>"

text \<open>
  The functions of other packages that the engine calls, with the arguments in the order
  of the calls. \<open>read_sounding\<close> is \<^verbatim>\<open>SkewT.Sounding\<close> followed by the reading of
  the columns \<^verbatim>\<open>'temp'\<close> and \<^verbatim>\<open>'hght'\<close>: \<open>None\<close> when the file cannot be parsed,
  and a column is \<open>None\<close> when it is missing. \<open>calc_blended_rain_ice\<close> is
  \<^verbatim>\<open>calc_blended_rain\<close> called with \<^verbatim>\<open>ice_flag=True\<close>, which returns four
  arrays. \<open>interp\<close> is \<^verbatim>\<open>numpy.interp\<close> on sample points that it accepts.
\<close>

record externals =
  calc_kdp_bringi ::
    "real list \<Rightarrow> real list \<Rightarrow> real list \<Rightarrow> real \<Rightarrow> real \<Rightarrow> real \<Rightarrow> ndarray \<times> ndarray \<times> ndarray"
  insect_filter ::
    "real list \<Rightarrow> real list \<Rightarrow> (real \<times> real) list \<Rightarrow> real list \<Rightarrow> real \<Rightarrow> bool list"
  differential_phase_filter :: "real list \<Rightarrow> real \<Rightarrow> bool list"
  despeckle :: "real list \<Rightarrow> real \<Rightarrow> nat \<Rightarrow> bool list"
  csu_fhc_summer ::
    "ndarray \<Rightarrow> ndarray \<Rightarrow> ndarray \<Rightarrow> ndarray \<Rightarrow> ndarray option \<Rightarrow> bool \<Rightarrow> string \<Rightarrow> string \<Rightarrow>
     real list option \<Rightarrow> bool \<Rightarrow> real \<Rightarrow> (string \<times> real) list \<Rightarrow> real list list"
  csu_hidro_rain :: "ndarray \<Rightarrow> ndarray \<Rightarrow> ndarray \<Rightarrow> ndarray \<Rightarrow> ndarray \<times> ndarray"
  calc_blended_rain :: "ndarray \<Rightarrow> ndarray \<Rightarrow> ndarray \<Rightarrow> ndarray \<times> ndarray"
  calc_blended_rain_ice ::
    "ndarray \<Rightarrow> ndarray \<Rightarrow> ndarray \<Rightarrow> ndarray \<times> ndarray \<times> ndarray \<times> ndarray"
  calc_dsd :: "ndarray \<Rightarrow> ndarray \<Rightarrow> ndarray \<Rightarrow> string \<Rightarrow> string \<Rightarrow> ndarray \<times> ndarray \<times> ndarray"
  calc_liquid_ice_mass ::
    "ndarray \<Rightarrow> ndarray \<Rightarrow> real list \<Rightarrow> real list option \<Rightarrow> ndarray \<times> ndarray"
  radar_coords_to_cart ::
    "real list \<Rightarrow> real list \<Rightarrow> real list \<Rightarrow> real list \<times> real list \<times> real list"
  interp :: "real list \<Rightarrow> real list \<Rightarrow> real list \<Rightarrow> real list"
  read_sounding :: "string \<Rightarrow> (ndarray option \<times> real list option) option"

subsection \<open>The engine\<close>

text \<open>
  The attributes of \<^verbatim>\<open>self\<close>. Those that \<^verbatim>\<open>__init__\<close> sets before the name check
  are plain components. Every other attribute is optional, \<open>None\<close> meaning that the
  object does not have it; \<open>radar_T\<close> is optional twice, since the attribute, once set,
  may hold \<^verbatim>\<open>None\<close>. The engine is built from a Py-ART radar object, so that
  \<^verbatim>\<open>do_radar_check\<close> stores it and returns \<^verbatim>\<open>True\<close>.
\<close>

record engine =
  verbose :: bool
  radar :: volume
  name_dz :: string
  name_dr :: string
  name_kd :: "string option"
  name_rh :: string
  name_ld :: "string option"
  name_dp :: "string option"
  kdp_method :: string
  bad :: real
  thresh_sdp :: real
  gs :: real
  name_sdp :: string
  kdp_window :: real
  name_fdp :: "string option"
  T_flag :: "bool option"
  T_factor :: "real option"
  snd_T :: "ndarray option"
  snd_z :: "real list option"
  radar_z :: "real list option"
  radar_T :: "real list option option"
  winter_flag :: "bool option"
  dz_range :: "(real \<times> real) list option"
  dr_thresh :: "real list option"
  speckle :: "nat option"
  name_fhc :: "string option"
  fhc_weights :: "(string \<times> real) list option"
  fhc_method :: "string option"
  band :: "string option"
  out :: "event list"

text \<open>
  A method returns its value, or the exception together with the engine as the exception
  left it: the volume is changed in place, and what was committed before the exception
  stays committed.
\<close>

type_synonym 'a result = "(pyerr \<times> engine) + 'a"

fun pybind :: "'a result \<Rightarrow> ('a \<Rightarrow> 'b result) \<Rightarrow> 'b result" where
  "pybind (Inl x) f = Inl x"
| "pybind (Inr v) f = f v"

fun lift :: "engine \<Rightarrow> pyerr + 'a \<Rightarrow> 'a result" where
  "lift e (Inl err) = Inl (err, e)"
| "lift e (Inr v) = Inr v"

text \<open>Reading an attribute that the object may not have.\<close>

fun attr :: "engine \<Rightarrow> string \<Rightarrow> 'a option \<Rightarrow> 'a result" where
  "attr e n None = Inl (AttributeError n, e)"
| "attr e n (Some v) = Inr v"

definition py_print :: "string \<Rightarrow> engine \<Rightarrow> engine" where
  "py_print s e = e\<lparr>out := out e @ [Printed s]\<rparr>"

definition warnings_warn :: "string \<Rightarrow> engine \<Rightarrow> engine" where
  "warnings_warn s e = e\<lparr>out := out e @ [Warned s]\<rparr>"

definition called :: "string \<Rightarrow> engine \<Rightarrow> engine" where
  "called s e = e\<lparr>out := out e @ [Called s]\<rparr>"

text \<open>\<^verbatim>\<open>if self.verbose: print(s)\<close>.\<close>

definition vprint :: "string \<Rightarrow> engine \<Rightarrow> engine" where
  "vprint s e = (if verbose e then py_print s e else e)"

text \<open>\<^verbatim>\<open>self.radar.fields[name]['data']\<close>; the name \<^verbatim>\<open>None\<close> is no key.\<close>

definition field_data :: "engine \<Rightarrow> string option \<Rightarrow> ndarray result" where
  "field_data e name =
     (case name of
        None \<Rightarrow> Inl (KeyError ''None'', e)
      | Some n \<Rightarrow> pybind (lift e (lookup_field (radar e) n)) (\<lambda>f. Inr (data f)))"

text \<open>\<^verbatim>\<open>str.upper\<close> on ASCII text.\<close>

definition upper_char :: "char \<Rightarrow> char" where
  "upper_char c =
     (case map_of (zip ''abcdefghijklmnopqrstuvwxyz'' ''ABCDEFGHIJKLMNOPQRSTUVWXYZ'') c of
        None \<Rightarrow> c
      | Some u \<Rightarrow> u)"

definition upper :: "string \<Rightarrow> string" where
  "upper s = map upper_char s"

subsection \<open>The field masking and commit utility\<close>

text \<open>
  \<^verbatim>\<open>add_field_to_radar_object(field, field_name, units, long_name, standard_name)\<close>.
  The mask setter writes the values of the base mask into the new array's own mask, so the
  two masks share nothing afterwards.
\<close>

definition add_field_to_radar_object ::
  "engine \<Rightarrow> ndarray \<Rightarrow> string \<Rightarrow> string \<Rightarrow> string \<Rightarrow> string \<Rightarrow> engine result" where
  "add_field_to_radar_object e fld field_name un lname sname =
     (let masked_field = asanyarray fld;
          fill_value = bad e
      in pybind (lift e (lookup_field (radar e) (name_dz e))) (\<lambda>base.
         pybind
           (if hasattr_mask (data base) then
              pybind (lift e (get_mask (data base))) (\<lambda>m.
              pybind (lift e (setattr_mask masked_field m)) (\<lambda>mf.
                case FillValue base of
                  None \<Rightarrow> Inl (KeyError ''_FillValue'', e)
                | Some fv \<Rightarrow> Inr (mf, fv)))
            else Inr (masked_field, fill_value))
           (\<lambda>(mf, fv).
              pybind (lift e (add_field (radar e) field_name
                        \<lparr>data = mf, units = un, long_name = lname,
                         standard_name = sname, FillValue = Some fv\<rparr>))
                (\<lambda>r. Inr (e\<lparr>radar := r\<rparr>)))))"

text \<open>\<^verbatim>\<open>extract_unmasked_data(field, bad=None)\<close>.\<close>

definition extract_unmasked_data :: "engine \<Rightarrow> string \<Rightarrow> real option \<Rightarrow> real list result" where
  "extract_unmasked_data e fld bad_arg =
     pybind (lift e (lookup_field (radar e) fld)) (\<lambda>f.
       let var = data f in
       if hasattr_mask var then
         Inr (filled var (case bad_arg of None \<Rightarrow> bad e | Some b \<Rightarrow> b))
       else Inr (arr_values var))"

subsection \<open>Specific differential phase\<close>

text \<open>
  \<^verbatim>\<open>call_csu_kdp\<close>. The three arrays that the source fills with \<^verbatim>\<open>bad\<close> before
  the call are overwritten by the call's results and are left out.
\<close>

definition call_csu_kdp :: "externals \<Rightarrow> engine \<Rightarrow> (engine \<times> ndarray) result" where
  "call_csu_kdp X e0 =
     (let e = vprint ''Calculating KDP via CSU method'' e0 in
      pybind (case name_dp e of
                None \<Rightarrow> Inl (KeyError ''None'', e)
              | Some n \<Rightarrow> extract_unmasked_data e n None) (\<lambda>dp.
      pybind (extract_unmasked_data e (name_dz e) None) (\<lambda>dz.
        let rng = map (\<lambda>x. x / RNG_MULT) (range_data (radar e));
            az = azimuth_data (radar e);
            (rng2d, az2d) = meshgrid rng az;
            (kdp, fdp, sdp) = calc_kdp_bringi X dp dz rng2d (gs e) (thresh_sdp e) (bad e);
            e1 = (called ''csu_kdp.calc_kdp_bringi'' e)\<lparr>name_fdp := Some (''FDP_'' @ kdp_method e)\<rparr>
        in pybind (add_field_to_radar_object e1 fdp (''FDP_'' @ kdp_method e1) ''deg''
                     ''Filtered Differential Phase'' ''Filtered Differential Phase'') (\<lambda>e2.
           pybind (add_field_to_radar_object e2 sdp (name_sdp e2) ''deg''
                     ''Standard Deviation of Differential Phase''
                     ''Std Dev Differential Phase'') (\<lambda>e3.
             Inr (e3, kdp))))))"

text \<open>
  \<^verbatim>\<open>calculate_kdp\<close>. When the method is not \<^verbatim>\<open>'CSU'\<close> the local variable
  \<^verbatim>\<open>kdp\<close> has no value where the commit reads it; \<^verbatim>\<open>name_kd\<close> is assigned before.
\<close>

definition calculate_kdp :: "externals \<Rightarrow> engine \<Rightarrow> (engine \<times> bool) result" where
  "calculate_kdp X e =
     (let wstr = ''Missing differential phase and KDP fields, failing ...'' in
      case name_dp e of
        None \<Rightarrow> Inr (warnings_warn wstr e, False)
      | Some dp \<Rightarrow>
          if has_field (radar e) dp then
            pybind (if upper (kdp_method e) = ''CSU''
                    then pybind (call_csu_kdp X e) (\<lambda>(e1, kdp). Inr (e1, Some kdp))
                    else Inr (e, None)) (\<lambda>(e1, kdp_opt).
              let e2 = e1\<lparr>name_kd := Some (''KDP_'' @ kdp_method e1)\<rparr> in
              case kdp_opt of
                None \<Rightarrow> Inl (UnboundLocalError ''kdp'', e2)
              | Some kdp \<Rightarrow>
                  pybind (add_field_to_radar_object e2 kdp (''KDP_'' @ kdp_method e2)
                            ''deg km-1'' ''Specific Differential Phase'' ''KDP'') (\<lambda>e3.
                    Inr (e3, True)))
          else Inr (warnings_warn wstr e, False))"

subsection \<open>The name check\<close>

definition do_name_check :: "externals \<Rightarrow> engine \<Rightarrow> (engine \<times> bool) result" where
  "do_name_check X e =
     (let wstr = '' field not in radar object, check variable names'' in
      if has_field (radar e) (name_dz e) then
        if has_field (radar e) (name_dr e) then
          if has_field (radar e) (name_rh e) then
            (let e1 = (case name_ld e of
                         Some ld \<Rightarrow>
                           if \<not> has_field (radar e) ld
                           then (vprint ''Not finding LDR field, not using'' e)\<lparr>name_ld := None\<rparr>
                           else e
                       | None \<Rightarrow> vprint ''Not provided LDR field, not using'' e)
             in case name_kd e1 of
                  Some kd \<Rightarrow>
                    if \<not> has_field (radar e1) kd
                    then calculate_kdp X (vprint ''Not finding KDP field, calculating'' e1)
                    else Inr (e1, True)
                | None \<Rightarrow> calculate_kdp X (vprint ''Not provided KDP field, calculating'' e1))
          else Inr (warnings_warn (name_rh e @ wstr) e, False)
        else Inr (warnings_warn (name_dr e @ wstr) e, False)
      else Inr (warnings_warn (name_dz e @ wstr) e, False))"

subsection \<open>The sounding\<close>

text \<open>\<^verbatim>\<open>a[i]\<close> on a one-dimensional array, for an index that is not negative.\<close>

definition item :: "'a list \<Rightarrow> nat \<Rightarrow> pyerr + 'a" where
  "item xs i = (if i < length xs then Inr (xs ! i) else Inl IndexError)"

text \<open>\<^verbatim>\<open>a.mask[i]\<close>: \<^verbatim>\<open>nomask\<close> is a numpy scalar and cannot be indexed.\<close>

fun mask_item :: "ma_mask \<Rightarrow> nat \<Rightarrow> pyerr + bool" where
  "mask_item NoMask i = Inl IndexError"
| "mask_item (MaskArr bs) i = item bs i"

text \<open>
  The loop of \<^verbatim>\<open>check_sounding_for_montonic\<close> over the indices of \<^verbatim>\<open>snd_z\<close>,
  with the two lists that it appends to. The mask is read only when the height test
  succeeds, as \<^verbatim>\<open>and\<close> does.
\<close>

fun montonic_loop ::
  "real list \<Rightarrow> ndarray \<Rightarrow> nat list \<Rightarrow> real list \<times> real list \<Rightarrow> pyerr + (real list \<times> real list)"
where
  "montonic_loop z T [] acc = Inr acc"
| "montonic_loop z T (i # is) (dummy_z, dummy_T) =
     (if 0 < i then
        (if z ! i > z ! (i - 1) then
           (case get_mask T of
              Inl err \<Rightarrow> Inl err
            | Inr m \<Rightarrow>
               (case mask_item m i of
                  Inl err \<Rightarrow> Inl err
                | Inr b \<Rightarrow>
                    if \<not> b then
                      (case item (arr_values T) i of
                         Inl err \<Rightarrow> Inl err
                       | Inr t \<Rightarrow> montonic_loop z T is (dummy_z @ [z ! i], dummy_T @ [t]))
                    else montonic_loop z T is (dummy_z, dummy_T)))
         else montonic_loop z T is (dummy_z, dummy_T))
      else montonic_loop z T is (dummy_z, dummy_T))"

text \<open>
  \<^verbatim>\<open>check_sounding_for_montonic\<close>. The new \<^verbatim>\<open>snd_T\<close> is built by
  \<^verbatim>\<open>np.array\<close> and is an ndarray.
\<close>

definition check_sounding_for_montonic :: "engine \<Rightarrow> engine result" where
  "check_sounding_for_montonic e =
     (case snd_T e of
        None \<Rightarrow> Inr e
      | Some T \<Rightarrow>
          pybind (lift e (get_mask T)) (\<lambda>m.
          pybind (lift e (mask_item m 0)) (\<lambda>m0.
          pybind (if \<not> m0 then
                    pybind (attr e ''snd_z'' (snd_z e)) (\<lambda>z.
                    pybind (lift e (item z 0)) (\<lambda>z0.
                    pybind (lift e (item (arr_values T) 0)) (\<lambda>t0.
                      Inr ([z0], [t0]))))
                  else Inr ([], [])) (\<lambda>acc.
          pybind (attr e ''snd_z'' (snd_z e)) (\<lambda>z.
          pybind (lift e (montonic_loop z T [0..<length z] acc)) (\<lambda>(dummy_z, dummy_T).
            Inr (e\<lparr>snd_z := Some dummy_z, snd_T := Some (Plain dummy_T)\<rparr>)))))))"

text \<open>\<^verbatim>\<open>get_z_from_radar\<close>.\<close>

definition get_z_from_radar :: "externals \<Rightarrow> volume \<Rightarrow> real list" where
  "get_z_from_radar X r =
     (let (sr_2d, az_2d) = meshgrid (range_data r) (azimuth_data r);
          el_2d = snd (meshgrid (range_data r) (elevation_data r));
          (xx, yy, zz) = radar_coords_to_cart X (map (\<lambda>x. x / RNG_MULT) sr_2d) az_2d el_2d
      in map (\<lambda>z. z + altitude_data r) zz)"

text \<open>
  \<^verbatim>\<open>interpolate_sounding_to_radar\<close>. \<^verbatim>\<open>numpy.interp\<close> raises \<^verbatim>\<open>ValueError\<close>
  when there are no sample points or when the two sample arrays differ in length.
\<close>

definition interpolate_sounding_to_radar :: "externals \<Rightarrow> engine \<Rightarrow> engine result" where
  "interpolate_sounding_to_radar X e0 =
     (let e = e0\<lparr>radar_z := Some (get_z_from_radar X (radar e0)), radar_T := Some None\<rparr> in
      pybind (check_sounding_for_montonic e) (\<lambda>e1.
      pybind (attr e1 ''T_flag'' (T_flag e1)) (\<lambda>tf.
        if tf then
          pybind (attr e1 ''radar_z'' (radar_z e1)) (\<lambda>rad_z1d.
          pybind (attr e1 ''snd_z'' (snd_z e1)) (\<lambda>z.
          pybind (attr e1 ''snd_T'' (snd_T e1)) (\<lambda>T.
            if z = [] \<or> length z \<noteq> length (arr_values T) then Inl (ValueError, e1)
            else
              (let rad_T1d = interp X rad_z1d z (arr_values T);
                   e2 = vprint ''Trying to get radar_T'' e1
               in Inr (e2\<lparr>radar_T := Some (Some rad_T1d)\<rparr>)))))
        else Inr e1)))"

text \<open>
  The body of either \<^verbatim>\<open>try\<close> block of \<^verbatim>\<open>get_sounding\<close>: \<^verbatim>\<open>snd_T\<close> is assigned
  first, then \<^verbatim>\<open>snd_z\<close>; an exception at either is caught, reported with \<open>msg\<close> and
  turns \<^verbatim>\<open>T_flag\<close> off.
\<close>

definition ingest :: "string \<Rightarrow> ndarray option \<Rightarrow> real list option \<Rightarrow> engine \<Rightarrow> engine" where
  "ingest msg t z e =
     (case t of
        None \<Rightarrow> (py_print msg e)\<lparr>T_flag := Some False\<rparr>
      | Some tv \<Rightarrow>
          (case z of
             None \<Rightarrow> (py_print msg (e\<lparr>snd_T := Some tv\<rparr>))\<lparr>T_flag := Some False\<rparr>
           | Some zv \<Rightarrow> e\<lparr>snd_T := Some tv, snd_z := Some zv\<rparr>))"

definition get_sounding :: "externals \<Rightarrow> engine \<Rightarrow> sounding_arg \<Rightarrow> engine result" where
  "get_sounding X e sounding =
     (let e1 =
        (case sounding of
           NoSounding \<Rightarrow> (py_print ''No sounding provided'' e)\<lparr>T_flag := Some False\<rparr>
         | SoundingFile path \<Rightarrow>
             (case read_sounding X path of
                None \<Rightarrow> (py_print ''Sounding read fail'' e)\<lparr>T_flag := Some False\<rparr>
              | Some (t, z) \<Rightarrow> ingest ''Sounding read fail'' t z e)
         | SoundingDict t z \<Rightarrow> ingest ''Sounding in wrong data format'' t z e)
      in interpolate_sounding_to_radar X e1)"

subsection \<open>Quality control\<close>

text \<open>
  \<^verbatim>\<open>do_qc\<close>. The last statement sets the attribute \<^verbatim>\<open>mask\<close> of the data of the
  reflectivity field, in place.
\<close>

definition do_qc :: "externals \<Rightarrow> engine \<Rightarrow> engine result" where
  "do_qc X e =
     (if \<not> has_field (radar e) (name_sdp e) then
        Inr (py_print ''Cannot do QC, no SDP field identified'' e)
      else
        (let e1 = vprint ''Masking insects and high SDP,'' e in
         pybind (extract_unmasked_data e1 (name_dz e1) None) (\<lambda>dz.
         pybind (extract_unmasked_data e1 (name_dr e1) None) (\<lambda>dr.
         pybind (extract_unmasked_data e1 (name_sdp e1) None) (\<lambda>sdp.
         pybind (attr e1 ''dz_range'' (dz_range e1)) (\<lambda>dzr.
         pybind (attr e1 ''dr_thresh'' (dr_thresh e1)) (\<lambda>drt.
           let insect_mask = insect_filter X dz dr dzr drt (bad e1);
               e2 = called ''csu_misc.insect_filter'' e1;
               sdp_mask = differential_phase_filter X sdp (thresh_sdp e2);
               e3 = called ''csu_misc.differential_phase_filter'' e2
           in pybind (lift e3 (logical_or insect_mask sdp_mask)) (\<lambda>new_mask.
              pybind (lift e3 (assign_where (map (\<lambda>v. 1 * v) dz) new_mask (bad e3))) (\<lambda>dz_qc.
                let e4 = vprint ''Despeckling'' e3 in
                pybind (attr e4 ''speckle'' (speckle e4)) (\<lambda>n.
                  let mask_ds = despeckle X dz_qc (bad e4) n;
                      e5 = called ''csu_misc.despeckle'' e4
                  in pybind (lift e5 (logical_or new_mask mask_ds)) (\<lambda>final_mask.
                     pybind (lift e5 (lookup_field (radar e5) (name_dz e5))) (\<lambda>f.
                     pybind (lift e5 (setattr_mask (data f) (MaskArr final_mask))) (\<lambda>d.
                       Inr (e5\<lparr>radar := (radar e5)
                              \<lparr>rfields := (rfields (radar e5))
                                 (name_dz e5 \<mapsto> f\<lparr>data := d\<rparr>)\<rparr>\<rparr>))))))))))))))"

subsection \<open>The retrievals\<close>

definition get_hid :: "externals \<Rightarrow> engine \<Rightarrow> engine result" where
  "get_hid X e =
     pybind (field_data e (Some (name_dz e))) (\<lambda>dz.
     pybind (field_data e (Some (name_dr e))) (\<lambda>dr.
     pybind (field_data e (name_kd e)) (\<lambda>kd.
     pybind (field_data e (Some (name_rh e))) (\<lambda>rh.
     pybind (case name_ld e of
               Some n \<Rightarrow> pybind (field_data e (Some n)) (\<lambda>d. Inr (Some d))
             | None \<Rightarrow> Inr None) (\<lambda>ld.
     pybind (attr e ''winter_flag'' (winter_flag e)) (\<lambda>winter.
       if \<not> winter then
         pybind (attr e ''T_flag'' (T_flag e)) (\<lambda>use_temp.
         pybind (attr e ''band'' (band e)) (\<lambda>bnd.
         pybind (attr e ''fhc_method'' (fhc_method e)) (\<lambda>method.
         pybind (attr e ''radar_T'' (radar_T e)) (\<lambda>T.
         pybind (attr e ''T_factor'' (T_factor e)) (\<lambda>temp_factor.
         pybind (attr e ''fhc_weights'' (fhc_weights e)) (\<lambda>weights.
           let scores = csu_fhc_summer X dz dr rh kd ld use_temp bnd method T (verbose e)
                          temp_factor weights;
               e1 = called ''csu_fhc.csu_fhc_summer'' e;
               fh = argmax_axis0_plus1 scores
           in pybind (attr e1 ''name_fhc'' (name_fhc e1)) (\<lambda>nm.
                add_field_to_radar_object e1 (Plain fh) nm ''unitless''
                  ''Hydrometeor ID'' ''Hydrometeor ID'')))))))
       else Inr (py_print ''Winter HID not enabled yet, sorry!'' e)))))))"

definition get_precip_rate :: "externals \<Rightarrow> engine \<Rightarrow> bool \<Rightarrow> string \<Rightarrow> engine result" where
  "get_precip_rate X e ice_flag rain_method =
     pybind (field_data e (Some (name_dz e))) (\<lambda>dz.
     pybind (field_data e (Some (name_dr e))) (\<lambda>dr.
     pybind (field_data e (name_kd e)) (\<lambda>kd.
     pybind (attr e ''winter_flag'' (winter_flag e)) (\<lambda>winter.
       if \<not> winter then
         pybind
           (if rain_method = ''hidro'' then
              pybind (attr e ''name_fhc'' (name_fhc e)) (\<lambda>nm.
              pybind (field_data e (Some nm)) (\<lambda>fhc.
                Inr (called ''csu_blended_rain.csu_hidro_rain'' e,
                     csu_hidro_rain X dz dr kd fhc)))
            else if \<not> ice_flag then
              Inr (called ''csu_blended_rain.calc_blended_rain'' e,
                   calc_blended_rain X dz dr kd)
            else
              (let (rain, method, zdp, fi) = calc_blended_rain_ice X dz dr kd;
                   e1 = called ''csu_blended_rain.calc_blended_rain'' e
               in pybind (add_field_to_radar_object e1 zdp ''ZDP'' ''dB''
                            ''Difference Reflectivity'' ''Difference Reflectivity'') (\<lambda>e2.
                  pybind (add_field_to_radar_object e2 fi ''FI'' []
                            ''Ice Fraction'' ''Ice Fraction'') (\<lambda>e3.
                    Inr (e3, (rain, method))))))
           (\<lambda>(e4, (rain, method)).
              pybind (add_field_to_radar_object e4 rain ''rain'' ''mm h-1''
                        ''Rainfall Rate'' ''Rainfall Rate'') (\<lambda>e5.
                add_field_to_radar_object e5 method ''method'' []
                  ''Rainfall Method'' ''Rainfall Method''))
       else Inr (py_print ''Winter precip not enabled yet, sorry!'' e)))))"

definition get_dsd :: "externals \<Rightarrow> engine \<Rightarrow> engine result" where
  "get_dsd X e =
     pybind (field_data e (Some (name_dz e))) (\<lambda>dz.
     pybind (field_data e (Some (name_dr e))) (\<lambda>dr.
     pybind (field_data e (name_kd e)) (\<lambda>kd.
     pybind (attr e ''band'' (band e)) (\<lambda>bnd.
       let (d0, Nw, mu) = calc_dsd X dz dr kd bnd ''2009'';
           e1 = called ''csu_dsd.calc_dsd'' e
       in pybind (add_field_to_radar_object e1 d0 ''D0'' ''mm''
                    ''Median Volume Diameter'' ''Median Volume Diameter'') (\<lambda>e2.
          pybind (add_field_to_radar_object e2 Nw ''NW'' ''mm-1 m-3''
                    ''Normalized Intercept Parameter''
                    ''Normalized Intercept Parameter'') (\<lambda>e3.
            add_field_to_radar_object e3 mu ''MU'' '' '' ''Mu'' ''Mu''))))))"

definition get_liquid_and_frozen_mass :: "externals \<Rightarrow> engine \<Rightarrow> engine result" where
  "get_liquid_and_frozen_mass X e =
     pybind (field_data e (Some (name_dz e))) (\<lambda>dz.
     pybind (field_data e (Some (name_dr e))) (\<lambda>dr.
     pybind (attr e ''radar_z'' (radar_z e)) (\<lambda>z.
     pybind (attr e ''radar_T'' (radar_T e)) (\<lambda>T.
       let (mw, mi) = calc_liquid_ice_mass X dz dr (map (\<lambda>x. x / 1000) z) T;
           e1 = called ''csu_liquid_ice_mass.calc_liquid_ice_mass'' e
       in pybind (add_field_to_radar_object e1 mw ''MW'' ''g m-3''
                    ''Liquid Water Mass'' ''Liquid Water Mass'') (\<lambda>e2.
            add_field_to_radar_object e2 mi ''MI'' ''g m-3''
              ''Ice Water Mass'' ''Ice Water Mass'')))))"

subsection \<open>Construction\<close>

text \<open>
  \<^verbatim>\<open>__init__\<close>. \<open>init_attributes\<close> is the object after the assignments that
  precede the name check, and \<open>init_stages\<close> is the part of \<^verbatim>\<open>__init__\<close> that
  follows the name check, from the sounding to the mass retrieval. The result \<open>Inr e\<close>
  of \<open>init\<close> is the object that the constructor call yields, also when
  \<^verbatim>\<open>__init__\<close> returns early; \<open>Inl\<close> is an exception that leaves the constructor,
  with the engine and its volume as they were then.
\<close>

definition init_attributes :: "volume \<Rightarrow> kwargs \<Rightarrow> engine" where
  "init_attributes r kw =
     \<lparr>verbose = kw_verbose kw, radar = r,
      name_dz = kw_dz kw, name_dr = kw_dr kw, name_kd = kw_kd kw,
      name_rh = kw_rh kw, name_ld = kw_ld kw, name_dp = kw_dp kw,
      kdp_method = kw_kdp_method kw, bad = kw_bad kw,
      thresh_sdp = kw_thresh_sdp kw, gs = kw_gs kw,
      name_sdp = kw_name_sdp kw, kdp_window = kw_kdp_window kw,
      name_fdp = None, T_flag = None, T_factor = None, snd_T = None,
      snd_z = None, radar_z = None, radar_T = None, winter_flag = None,
      dz_range = None, dr_thresh = None, speckle = None, name_fhc = None,
      fhc_weights = None, fhc_method = None, band = None, out = []\<rparr>"

definition init_stages :: "externals \<Rightarrow> kwargs \<Rightarrow> engine \<Rightarrow> engine result" where
  "init_stages X kw e1 =
           (let e2 = e1\<lparr>T_flag := Some (kw_use_temp kw),
                        T_factor := Some (kw_fhc_T_factor kw)\<rparr>
            in pybind (get_sounding X e2 (kw_sounding kw)) (\<lambda>e3.
               let e4 = e3\<lparr>winter_flag := Some (kw_winter kw)\<rparr> in
               pybind (if kw_qc_flag kw then
                         do_qc X ((vprint ''Performing QC'' e4)
                                    \<lparr>dz_range := Some (kw_dz_range kw),
                                     dr_thresh := Some (kw_thresh_dr kw),
                                     speckle := Some (kw_speckle kw)\<rparr>)
                       else Inr e4) (\<lambda>e5.
               let e6 = e5\<lparr>name_fhc := Some (kw_name_fhc kw)\<rparr> in
               pybind (if kw_fhc_flag kw then
                         get_hid X ((vprint ''Performing FHC'' e6)
                                      \<lparr>fhc_weights := Some (kw_fhc_weights kw),
                                       fhc_method := Some (kw_fhc_method kw),
                                       band := Some (kw_band kw)\<rparr>)
                       else Inr e6) (\<lambda>e7.
               pybind (if kw_precip_flag kw then
                         get_precip_rate X (vprint ''Performing precip rate calculations'' e7)
                           (kw_ice_flag kw) (kw_rain_method kw)
                       else Inr e7) (\<lambda>e8.
               pybind (if kw_dsd_flag kw then
                         get_dsd X (vprint ''Performing DSD calculations'' e8)
                       else Inr e8) (\<lambda>e9.
               if kw_liquid_ice_flag kw then
                 get_liquid_and_frozen_mass X (vprint ''Performing mass calculations'' e9)
               else Inr e9))))))"

definition init :: "externals \<Rightarrow> volume \<Rightarrow> kwargs \<Rightarrow> engine result" where
  "init X r kw =
     (let e = init_attributes r kw
      in pybind (do_name_check X e) (\<lambda>(e1, flag).
         if \<not> flag then Inr e1 else init_stages X kw e1))"

text \<open>The engine that a result carries, whether the method returned or raised.\<close>

fun result_engine :: "engine result \<Rightarrow> engine" where
  "result_engine (Inl (err, e)) = e"
| "result_engine (Inr e) = e"

text \<open>The exception that a result carries, if any.\<close>

fun raised :: "'a result \<Rightarrow> pyerr option" where
  "raised (Inl (err, e)) = Some err"
| "raised (Inr v) = None"

subsection \<open>Notions used in the statements\<close>

text \<open>
  An array is well formed when its mask array, if it has one, has the shape of its data,
  as numpy guarantees. A field is well formed in a volume when its data is well formed
  and has the shape of the volume.
\<close>

definition wf_array :: "ndarray \<Rightarrow> bool" where
  "wf_array a = (length (getmaskarray a) = length (arr_values a))"

definition wf_field :: "volume \<Rightarrow> field \<Rightarrow> bool" where
  "wf_field r f =
     (length (arr_values (data f)) = nrays r * ngates r \<and> wf_array (data f))"

text \<open>
  The commit utility can read what it needs from the base reflectivity field: the field is
  there and well formed, and it has a fill value if its data is a masked array.
\<close>

definition base_ok :: "engine \<Rightarrow> bool" where
  "base_ok e =
     (case rfields (radar e) (name_dz e) of
        None \<Rightarrow> False
      | Some base \<Rightarrow>
          wf_field (radar e) base \<and> (hasattr_mask (data base) \<longrightarrow> FillValue base \<noteq> None))"

text \<open>
  The masking propagation rule, for a committed field \<open>f\<close>, the array \<open>arr\<close> it was
  made from, the base reflectivity field \<open>base\<close> at the time of the commit and the
  bad-data sentinel \<open>b\<close>: the values are those of the array; if the base data carries
  a mask, the mask of the field is the base mask gate for gate and its fill value is that
  of the base field; otherwise the field has the mask of the array and the sentinel as its
  fill value.
\<close>

definition propagated :: "real \<Rightarrow> field \<Rightarrow> ndarray \<Rightarrow> field \<Rightarrow> bool" where
  "propagated b base arr f =
     (arr_values (data f) = arr_values arr \<and>
      (if hasattr_mask (data base)
       then getmaskarray (data f) = getmaskarray (data base) \<and> FillValue f = FillValue base
       else getmaskarray (data f) = getmaskarray arr \<and> FillValue f = Some b))"

text \<open>
  An engine \<open>x\<close> keeps the specific differential phase of an engine \<open>e\<close> when every
  field name of the volume of \<open>e\<close> is a field name of the volume of \<open>x\<close> and
  \<open>name_kd\<close> is bound in \<open>x\<close> as it is in \<open>e\<close>.
\<close>

definition keeps :: "engine \<Rightarrow> engine \<Rightarrow> bool" where
  "keeps e x =
     ((\<forall>k. has_field (radar e) k \<longrightarrow> has_field (radar x) k) \<and> name_kd x = name_kd e)"

text \<open>
  A sounding from which no temperature profile can be read: none given, a file that cannot
  be parsed, or a source without temperatures.
\<close>

definition sounding_unusable :: "externals \<Rightarrow> sounding_arg \<Rightarrow> bool" where
  "sounding_unusable X s =
     (case s of
        NoSounding \<Rightarrow> True
      | SoundingFile path \<Rightarrow>
          (case read_sounding X path of None \<Rightarrow> True | Some (t, z) \<Rightarrow> t = None)
      | SoundingDict t z \<Rightarrow> t = None)"

text \<open>
  No path to specific differential phase: the name bound to it is \<^verbatim>\<open>None\<close> or no
  field of the volume, and so is the name bound to differential phase.
\<close>

definition no_kdp_path :: "volume \<Rightarrow> kwargs \<Rightarrow> bool" where
  "no_kdp_path r kw =
     ((case kw_kd kw of None \<Rightarrow> True | Some k \<Rightarrow> \<not> has_field r k) \<and>
      (case kw_dp kw of None \<Rightarrow> True | Some d \<Rightarrow> \<not> has_field r d))"

subsection \<open>Example data\<close>

definition ex_field :: "ndarray \<Rightarrow> field" where
  "ex_field d =
     \<lparr>data = d, units = ''unitless'', long_name = ''example'',
      standard_name = ''example'', FillValue = Some (- 9999)\<rparr>"

text \<open>A volume of one ray and two gates; the second gate of the reflectivity is masked.\<close>

definition ex_volume :: volume where
  "ex_volume =
     \<lparr>rfields = [''DZ'' \<mapsto> ex_field (Masked [30, 10] (MaskArr [False, True])),
                 ''DR'' \<mapsto> ex_field (Masked [1, 2] NoMask),
                 ''RH'' \<mapsto> ex_field (Masked [1, 1] NoMask),
                 ''DP'' \<mapsto> ex_field (Masked [40, 50] NoMask)],
      nrays = 1, ngates = 2, range_data = [150, 300], azimuth_data = [0],
      elevation_data = [1], altitude_data = 100\<rparr>"

text \<open>The same volume with a reflectivity that is an ndarray.\<close>

definition ex_volume_plain :: volume where
  "ex_volume_plain =
     ex_volume\<lparr>rfields := (rfields ex_volume)(''DZ'' \<mapsto> ex_field (Plain [30, 10]))\<rparr>"

text \<open>The same volume with a reflectivity field that has no key \<^verbatim>\<open>_FillValue\<close>.\<close>

definition ex_volume_nofill :: volume where
  "ex_volume_nofill =
     ex_volume\<lparr>rfields := (rfields ex_volume)
       (''DZ'' \<mapsto> (ex_field (Masked [30, 10] (MaskArr [False, True])))\<lparr>FillValue := None\<rparr>)\<rparr>"

text \<open>Stand-ins for the external algorithms, total and shape preserving.\<close>

definition ex_externals :: externals where
  "ex_externals =
     \<lparr>calc_kdp_bringi = (\<lambda>dp dz rng g thsd b. (Plain (map (\<lambda>x. 0) dp), Plain dp, Plain (map (\<lambda>x. 5) dp))),
      insect_filter = (\<lambda>dz dr dzr drt b. map (\<lambda>x. x < 0) dz),
      differential_phase_filter = (\<lambda>sdp t. map (\<lambda>x. t < x) sdp),
      despeckle = (\<lambda>dz b n. map (\<lambda>x. x = b) dz),
      csu_fhc_summer = (\<lambda>dz dr rh kd ld ut bnd m T v tf w. [arr_values dz, arr_values dr]),
      csu_hidro_rain = (\<lambda>dz dr kd fhc. (dz, fhc)),
      calc_blended_rain = (\<lambda>dz dr kd. (dz, dr)),
      calc_blended_rain_ice = (\<lambda>dz dr kd. (dz, dr, dz, dr)),
      calc_dsd = (\<lambda>dz dr kd bnd m. (dz, dr, kd)),
      calc_liquid_ice_mass = (\<lambda>dz dr z T. (dz, dr)),
      radar_coords_to_cart = (\<lambda>sr az el. (sr, sr, sr)),
      interp = (\<lambda>x xp fp. map (\<lambda>v. 0) x),
      read_sounding = (\<lambda>path. None)\<rparr>"

definition ex_kwargs :: kwargs where
  "ex_kwargs = (DEFAULT_KW [] [] [])\<lparr>kw_dp := Some ''DP''\<rparr>"

section \<open>Properties\<close>

subsection \<open>Auxiliary facts\<close>

lemmas ex_defs =
  init_attributes_def ex_volume_plain_def ex_volume_nofill_def ex_volume_def ex_kwargs_def
  DEFAULT_KW_def
  ex_field_def BAD_def DEFAULT_SDP_def ex_externals_def

lemmas commit_defs =
  add_field_to_radar_object_def lookup_field_def add_field_def Let_def

lemma getmaskarray_asanyarray: "getmaskarray (asanyarray a) = getmaskarray a"
  by (cases a) simp_all

lemma arr_values_asanyarray: "arr_values (asanyarray a) = arr_values a"
  by (cases a) simp_all

lemma flat_assign_same_length:
  "length src = length cur \<Longrightarrow> flat_assign cur src = src"
  by (auto simp: flat_assign_def intro!: nth_equalityI)

lemma setattr_mask_values:
  "setattr_mask a m = Inr a' \<Longrightarrow> arr_values a' = arr_values a"
  by (induction a m rule: setattr_mask.induct) auto

lemma setattr_mask_bits:
  assumes "setattr_mask (asanyarray fld) m = Inr a'"
      and "wf_array fld"
      and "length (getmaskarray (Masked bvs m)) = length (arr_values fld)"
  shows "getmaskarray a' = getmaskarray (Masked bvs m)"
proof (cases fld)
  case (Plain vs)
  with assms show ?thesis
    by (cases m) (auto simp: wf_array_def flat_assign_same_length)
next
  case (Masked vs cur)
  with assms show ?thesis
    by (cases m; cases cur) (auto simp: wf_array_def flat_assign_same_length)
qed

lemma setattr_mask_asanyarray:
  "\<exists>mf. setattr_mask (asanyarray fld) m = Inr mf"
proof (cases fld)
  case (Plain vs)
  then show ?thesis by (cases m) simp_all
next
  case (Masked vs cur)
  then show ?thesis by (cases m; cases cur) simp_all
qed

text \<open>
  A commit either raises and leaves the engine as it is, or returns the engine with one
  field of the volume set.
\<close>

lemma commit_cases:
  "(\<exists>err. add_field_to_radar_object e fld nm un lname sname = Inl (err, e)) \<or>
   (\<exists>f. add_field_to_radar_object e fld nm un lname sname =
          Inr (e\<lparr>radar := (radar e)\<lparr>rfields := (rfields (radar e))(nm \<mapsto> f)\<rparr>\<rparr>))"
proof (cases "rfields (radar e) (name_dz e)")
  case None
  then show ?thesis by (simp add: commit_defs)
next
  case (Some base)
  show ?thesis
  proof (cases "data base")
    case (Plain vs)
    with Some show ?thesis by (auto simp: commit_defs)
  next
    case (Masked vs m)
    obtain mf where "setattr_mask (asanyarray fld) m = Inr mf"
      using setattr_mask_asanyarray by blast
    with Some Masked show ?thesis
      by (cases "FillValue base") (auto simp: commit_defs)
  qed
qed

lemma commit_out:
  "out (result_engine (add_field_to_radar_object e fld nm un lname sname)) = out e"
  using commit_cases [of e fld nm un lname sname] by auto

lemma commit_out_Inr:
  "add_field_to_radar_object e fld nm un lname sname = Inr e' \<Longrightarrow> out e' = out e"
  using commit_out [of e fld nm un lname sname] by simp

subsection \<open>The commit utility\<close>

text \<open>
  C1, as the code has it. Let a well-formed array be committed by
  \<open>add_field_to_radar_object\<close> in a volume whose base reflectivity field is well
  formed. If the base field carries a mask, the mask of the committed field equals the
  base mask gate for gate and its fill value is that of the base field. If the base field
  carries no mask, the fill value of the committed field is the bad-data sentinel (and
  nothing is said about its mask).
\<close>

theorem C1_commit_inherits_mask_of_masked_base:
  assumes "rfields (radar e) (name_dz e) = Some base"
      and "wf_field (radar e) base"
      and "wf_array fld"
      and "add_field_to_radar_object e fld nm un lname sname = Inr e'"
  shows "\<exists>f. rfields (radar e') nm = Some f \<and>
           (hasattr_mask (data base) \<longrightarrow>
              getmaskarray (data f) = getmaskarray (data base) \<and>
              FillValue f = FillValue base) \<and>
           (\<not> hasattr_mask (data base) \<longrightarrow> FillValue f = Some (bad e))"
proof (cases "data base")
  case (Plain bvs)
  with assms show ?thesis
    by (auto simp: commit_defs split: if_splits)
next
  case (Masked bvs m)
  from assms(1,4) Masked obtain mf fv where
    set: "setattr_mask (asanyarray fld) m = Inr mf" and fv: "FillValue base = Some fv"
    and add: "add_field (radar e) nm \<lparr>data = mf, units = un, long_name = lname,
                standard_name = sname, FillValue = Some fv\<rparr> = Inr (radar e')"
    by (cases "setattr_mask (asanyarray fld) m"; cases "FillValue base")
       (auto simp: commit_defs split: if_splits)
  from add have len: "length (arr_values mf) = nrays (radar e) * ngates (radar e)"
    and rad: "radar e' = (radar e)\<lparr>rfields := (rfields (radar e))(nm \<mapsto>
                \<lparr>data = mf, units = un, long_name = lname,
                 standard_name = sname, FillValue = Some fv\<rparr>)\<rparr>"
    by (auto simp: add_field_def split: if_splits)
  from rad have look: "rfields (radar e') nm = Some \<lparr>data = mf, units = un,
                long_name = lname, standard_name = sname, FillValue = Some fv\<rparr>"
    by simp
  from set have "arr_values mf = arr_values fld"
    by (simp add: setattr_mask_values arr_values_asanyarray)
  with len assms(2) Masked
  have "length (getmaskarray (Masked bvs m)) = length (arr_values fld)"
    by (simp add: wf_field_def wf_array_def)
  from setattr_mask_bits [OF set assms(3) this] look fv Masked show ?thesis
    by simp
qed

text \<open>
  Witness for C1: on the example volume, whose reflectivity has the mask
  \<open>[False, True]\<close> and the fill value \<open>-9999\<close>, an ndarray is committed with that
  mask and that fill value.
\<close>

theorem C1_commit_inherits_mask_witness:
  "add_field_to_radar_object (init_attributes ex_volume ex_kwargs) (Plain [1, 2])
     ''KD'' ''u'' ''l'' ''s'' =
   Inr ((init_attributes ex_volume ex_kwargs)
          \<lparr>radar := ex_volume\<lparr>rfields := (rfields ex_volume)(''KD'' \<mapsto>
             \<lparr>data = Masked [1, 2] (MaskArr [False, True]), units = ''u'',
              long_name = ''l'', standard_name = ''s'',
              FillValue = Some (- 9999)\<rparr>)\<rparr>\<rparr>) \<and>
   (\<exists>f. rfields (radar ((init_attributes ex_volume ex_kwargs)
          \<lparr>radar := ex_volume\<lparr>rfields := (rfields ex_volume)(''KD'' \<mapsto>
             \<lparr>data = Masked [1, 2] (MaskArr [False, True]), units = ''u'',
              long_name = ''l'', standard_name = ''s'',
              FillValue = Some (- 9999)\<rparr>)\<rparr>\<rparr>)) ''KD'' = Some f \<and>
        getmaskarray (data f) = [False, True] \<and> FillValue f = Some (- 9999))"
proof -
  let ?e = "init_attributes ex_volume ex_kwargs"
  let ?base = "ex_field (Masked [30, 10] (MaskArr [False, True]))"
  have h1: "rfields (radar ?e) (name_dz ?e) = Some ?base"
    by (simp add: ex_defs)
  have h2: "wf_field (radar ?e) ?base"
    by (simp add: ex_defs wf_field_def wf_array_def)
  have h3: "wf_array (Plain [1, 2])"
    by (simp add: wf_array_def)
  have h4: "add_field_to_radar_object ?e (Plain [1, 2]) ''KD'' ''u'' ''l'' ''s'' =
      Inr (?e\<lparr>radar := ex_volume\<lparr>rfields := (rfields ex_volume)(''KD'' \<mapsto>
              \<lparr>data = Masked [1, 2] (MaskArr [False, True]), units = ''u'',
               long_name = ''l'', standard_name = ''s'',
               FillValue = Some (- 9999)\<rparr>)\<rparr>\<rparr>)"
    by (simp add: commit_defs ex_defs flat_assign_def)
  from C1_commit_inherits_mask_of_masked_base [OF h1 h2 h3 h4] h4 show ?thesis
    by (simp add: ex_defs)
qed

text \<open>
  Counterexample to C1 as stated: the base reflectivity of \<open>ex_volume_plain\<close> is an
  ndarray, so none of its gates is masked, and a masked array whose first gate is masked
  is committed with its own mask.
\<close>

theorem C1_mask_not_inherited_from_unmasked_base:
  "rfields (radar (init_attributes ex_volume_plain ex_kwargs))
     (name_dz (init_attributes ex_volume_plain ex_kwargs)) = Some (ex_field (Plain [30, 10])) \<and>
   add_field_to_radar_object (init_attributes ex_volume_plain ex_kwargs)
     (Masked [1, 2] (MaskArr [True, False])) ''KD'' ''u'' ''l'' ''s'' =
   Inr ((init_attributes ex_volume_plain ex_kwargs)
          \<lparr>radar := ex_volume_plain\<lparr>rfields := (rfields ex_volume_plain)(''KD'' \<mapsto>
             \<lparr>data = Masked [1, 2] (MaskArr [True, False]), units = ''u'',
              long_name = ''l'', standard_name = ''s'', FillValue = Some BAD\<rparr>)\<rparr>\<rparr>) \<and>
   getmaskarray (Masked [1, 2] (MaskArr [True, False])) \<noteq>
   getmaskarray (data (ex_field (Plain [30, 10])))"
  by (simp add: commit_defs ex_defs)

text \<open>
  C10. When the data of the base reflectivity field carries no mask, a field that the
  utility commits has the bad-data sentinel as its fill value, and its data is the
  committed array viewed as a masked array, with the mask that array had.
\<close>

theorem C10_commit_on_unmasked_base:
  assumes "rfields (radar e) (name_dz e) = Some base"
      and "\<not> hasattr_mask (data base)"
      and "add_field_to_radar_object e fld nm un lname sname = Inr e'"
  shows "rfields (radar e') nm =
           Some \<lparr>data = asanyarray fld, units = un, long_name = lname,
                 standard_name = sname, FillValue = Some (bad e)\<rparr>
         \<and> getmaskarray (asanyarray fld) = getmaskarray fld"
  using assms
  by (auto simp: commit_defs getmaskarray_asanyarray split: if_splits)

text \<open>Witness for C10, on the volume whose reflectivity is an ndarray.\<close>

theorem C10_commit_on_unmasked_base_witness:
  "\<not> hasattr_mask (data (ex_field (Plain [30, 10]))) \<and>
   rfields (radar ((init_attributes ex_volume_plain ex_kwargs)
      \<lparr>radar := ex_volume_plain\<lparr>rfields := (rfields ex_volume_plain)(''KD'' \<mapsto>
         \<lparr>data = Masked [1, 2] (MaskArr [True, False]), units = ''u'',
          long_name = ''l'', standard_name = ''s'', FillValue = Some BAD\<rparr>)\<rparr>\<rparr>)) ''KD'' =
   Some \<lparr>data = asanyarray (Masked [1, 2] (MaskArr [True, False])), units = ''u'',
         long_name = ''l'', standard_name = ''s'',
         FillValue = Some (bad (init_attributes ex_volume_plain ex_kwargs))\<rparr>"
proof -
  let ?e = "init_attributes ex_volume_plain ex_kwargs"
  have h1: "rfields (radar ?e) (name_dz ?e) = Some (ex_field (Plain [30, 10]))"
    by (simp add: ex_defs)
  have h2: "\<not> hasattr_mask (data (ex_field (Plain [30, 10])))"
    by (simp add: ex_defs)
  have h3: "add_field_to_radar_object ?e (Masked [1, 2] (MaskArr [True, False]))
              ''KD'' ''u'' ''l'' ''s'' =
      Inr (?e\<lparr>radar := ex_volume_plain\<lparr>rfields := (rfields ex_volume_plain)(''KD'' \<mapsto>
             \<lparr>data = Masked [1, 2] (MaskArr [True, False]), units = ''u'',
              long_name = ''l'', standard_name = ''s'', FillValue = Some BAD\<rparr>)\<rparr>\<rparr>)"
    by (simp add: commit_defs ex_defs)
  from C10_commit_on_unmasked_base [OF h1 h2 h3] h2 show ?thesis
    by simp
qed

subsection \<open>Quality control\<close>

text \<open>
  C9. If \<open>do_qc\<close> is invoked while the volume has no field of the name
  \<open>name_sdp\<close>, it prints a notice and returns: the volume, and with it the data and
  the mask of the reflectivity field, is what it was.
\<close>

theorem C9_qc_without_sdp_is_noop:
  assumes "\<not> has_field (radar e) (name_sdp e)"
  shows "\<exists>e'. do_qc X e = Inr e' \<and> radar e' = radar e \<and>
              out e' = out e @ [Printed ''Cannot do QC, no SDP field identified'']"
  using assms by (simp add: do_qc_def py_print_def)

text \<open>Witness for C9: the example volume has no field \<open>SDP_CSU\<close>.\<close>

theorem C9_qc_without_sdp_witness:
  "\<not> has_field ex_volume ''SDP_CSU'' \<and>
   (\<exists>e'. do_qc ex_externals (init_attributes ex_volume ex_kwargs) = Inr e' \<and>
         radar e' = ex_volume \<and>
         out e' = [Printed ''Cannot do QC, no SDP field identified''])"
proof -
  have h: "\<not> has_field (radar (init_attributes ex_volume ex_kwargs))
              (name_sdp (init_attributes ex_volume ex_kwargs))"
    by (simp add: ex_defs has_field_def)
  from C9_qc_without_sdp_is_noop [OF h, of ex_externals] h show ?thesis
    by (simp add: init_attributes_def ex_kwargs_def DEFAULT_KW_def)
qed

subsection \<open>Sounding normalization\<close>

lemmas sounding_defs = check_sounding_for_montonic_def item_def Let_def

text \<open>
  C2, at an input where the code departs from it. The sounding has the heights
  \<open>[5, 1, 2]\<close> and three valid temperatures. The loop compares each height with the
  one before it in the input, not with the last one kept: it keeps \<open>2\<close> after
  \<open>5\<close>, and the kept heights \<open>[5, 2]\<close> are not increasing.
\<close>

theorem C2_kept_heights_not_increasing:
  "check_sounding_for_montonic
     ((init_attributes ex_volume ex_kwargs)
        \<lparr>snd_T := Some (Masked [20, 10, 15] (MaskArr [False, False, False])),
         snd_z := Some [5, 1, 2]\<rparr>) =
   Inr ((init_attributes ex_volume ex_kwargs)
        \<lparr>snd_T := Some (Plain [20, 15]), snd_z := Some [5, 2]\<rparr>) \<and>
   \<not> sorted_wrt (<) [5, 2 :: real]"
  by (simp add: sounding_defs upt_rec)

text \<open>
  C7, at an input where the code departs from it. Normalizing the sounding of C2 gives
  the heights \<open>[5, 2]\<close> with the temperatures \<open>[20, 15]\<close>. Normalizing the engine
  once more raises, because the kept temperatures are an ndarray without mask; and
  normalizing the kept profile, given as a masked array, drops its second entry.
\<close>

theorem C7_normalization_not_idempotent:
  "check_sounding_for_montonic
     ((init_attributes ex_volume ex_kwargs)
        \<lparr>snd_T := Some (Masked [20, 10, 15] (MaskArr [False, False, False])),
         snd_z := Some [5, 1, 2]\<rparr>) =
   Inr ((init_attributes ex_volume ex_kwargs)
        \<lparr>snd_T := Some (Plain [20, 15]), snd_z := Some [5, 2]\<rparr>) \<and>
   check_sounding_for_montonic
     ((init_attributes ex_volume ex_kwargs)
        \<lparr>snd_T := Some (Plain [20, 15]), snd_z := Some [5, 2]\<rparr>) =
   Inl (AttributeError ''mask'', (init_attributes ex_volume ex_kwargs)
        \<lparr>snd_T := Some (Plain [20, 15]), snd_z := Some [5, 2]\<rparr>) \<and>
   check_sounding_for_montonic
     ((init_attributes ex_volume ex_kwargs)
        \<lparr>snd_T := Some (Masked [20, 15] (MaskArr [False, False])), snd_z := Some [5, 2]\<rparr>) =
   Inr ((init_attributes ex_volume ex_kwargs)
        \<lparr>snd_T := Some (Plain [20]), snd_z := Some [5]\<rparr>)"
  by (simp add: sounding_defs upt_rec)

text \<open>
  What does hold: a profile whose heights increase strictly and whose temperatures are a
  masked array with no masked entry is kept as it is.
\<close>

lemma montonic_loop_increasing:
  assumes "\<forall>i. 0 < i \<and> i < length z \<longrightarrow> z ! (i - 1) < z ! i"
      and "length ts = length z" and "length ms = length z" and "\<forall>b \<in> set ms. \<not> b"
  shows "0 < k \<Longrightarrow> k \<le> n \<Longrightarrow> n \<le> length z \<Longrightarrow>
         montonic_loop z (Masked ts (MaskArr ms)) [k..<n] (take k z, take k ts) =
           Inr (take n z, take n ts)"
proof (induction "n - k" arbitrary: k)
  case 0
  then show ?case by simp
next
  case (Suc d)
  then have kn: "k < n" and klen: "k < length z" by simp_all
  from assms(3,4) klen have mk: "\<not> ms ! k" by (auto simp: all_set_conv_all_nth)
  from Suc have IH: "montonic_loop z (Masked ts (MaskArr ms)) [Suc k..<n]
                       (take (Suc k) z, take (Suc k) ts) = Inr (take n z, take n ts)"
    by simp
  from assms(1) klen Suc.prems(1) have lt: "z ! (k - 1) < z ! k" by simp
  from kn have "[k..<n] = k # [Suc k..<n]" by (simp add: upt_rec)
  with IH lt mk klen assms(2,3) Suc.prems(1) show ?case
    by (simp add: item_def take_Suc_conv_app_nth)
qed

lemma normalization_identity_on_normal_form:
  assumes "snd_z e = Some z" and "snd_T e = Some (Masked ts (MaskArr ms))"
      and "z \<noteq> []" and "sorted_wrt (<) z"
      and "length ts = length z" and "length ms = length z" and "\<forall>b \<in> set ms. \<not> b"
  shows "check_sounding_for_montonic e = Inr (e\<lparr>snd_z := Some z, snd_T := Some (Plain ts)\<rparr>)"
proof -
  from assms(4) have inc: "\<forall>i. 0 < i \<and> i < length z \<longrightarrow> z ! (i - 1) < z ! i"
    by (auto simp: sorted_wrt_iff_nth_less)
  from assms(3) have len: "0 < length z" by simp
  with assms(6,7) have m0: "\<not> ms ! 0" by (auto simp: all_set_conv_all_nth)
  have up: "[0..<length z] = 0 # [1..<length z]"
    using len by (simp add: upt_rec)
  from len assms(5) have tk: "take 1 z = [z ! 0]" "take 1 ts = [ts ! 0]"
    by (simp_all add: take_Suc_conv_app_nth)
  have "montonic_loop z (Masked ts (MaskArr ms)) [1..<length z] (take 1 z, take 1 ts) =
          Inr (take (length z) z, take (length z) ts)"
    using len
    by (intro montonic_loop_increasing [OF inc assms(5,6,7)]) (simp_all add: Suc_le_eq)
  with tk assms(5)
  have "montonic_loop z (Masked ts (MaskArr ms)) [1..<length z] ([z ! 0], [ts ! 0]) =
          Inr (z, ts)" by simp
  with assms(1,2,5,6) len m0 up show ?thesis
    by (simp add: sounding_defs)
qed

subsection \<open>The name check and specific differential phase\<close>

lemmas run_defs =
  init_def init_stages_def do_name_check_def calculate_kdp_def call_csu_kdp_def extract_unmasked_data_def
  get_sounding_def interpolate_sounding_to_radar_def check_sounding_for_montonic_def
  get_z_from_radar_def meshgrid_def do_qc_def get_hid_def get_precip_rate_def get_dsd_def
  get_liquid_and_frozen_mass_def field_data_def has_field_def vprint_def py_print_def
  warnings_warn_def called_def logical_or_def assign_where_def upper_def upper_char_def
  RNG_MULT_def ingest_def argmax_axis0_plus1_def argmax_def flat_assign_def

lemma extract_unmasked_data_eq:
  "rfields (radar e) n = Some f \<Longrightarrow>
   extract_unmasked_data e n None = Inr (filled (data f) (bad e))"
  by (cases "data f") (simp_all add: extract_unmasked_data_def lookup_field_def Let_def)

lemma setattr_mask_hasattr:
  "setattr_mask a m = Inr a' \<Longrightarrow> hasattr_mask a'"
  by (induction a m rule: setattr_mask.induct) auto

text \<open>Printing and logging change nothing but the output.\<close>

lemma vprint_sel:
  "verbose (vprint s e) = verbose e" "radar (vprint s e) = radar e"
  "name_dz (vprint s e) = name_dz e" "name_dr (vprint s e) = name_dr e"
  "name_kd (vprint s e) = name_kd e" "name_rh (vprint s e) = name_rh e"
  "name_ld (vprint s e) = name_ld e" "name_dp (vprint s e) = name_dp e"
  "kdp_method (vprint s e) = kdp_method e" "bad (vprint s e) = bad e"
  "thresh_sdp (vprint s e) = thresh_sdp e" "gs (vprint s e) = gs e"
  "name_sdp (vprint s e) = name_sdp e" "kdp_window (vprint s e) = kdp_window e"
  "name_fdp (vprint s e) = name_fdp e" "T_flag (vprint s e) = T_flag e"
  "T_factor (vprint s e) = T_factor e" "snd_T (vprint s e) = snd_T e"
  "snd_z (vprint s e) = snd_z e" "radar_z (vprint s e) = radar_z e"
  "radar_T (vprint s e) = radar_T e" "winter_flag (vprint s e) = winter_flag e"
  "dz_range (vprint s e) = dz_range e" "dr_thresh (vprint s e) = dr_thresh e"
  "speckle (vprint s e) = speckle e" "name_fhc (vprint s e) = name_fhc e"
  "fhc_weights (vprint s e) = fhc_weights e" "fhc_method (vprint s e) = fhc_method e"
  "band (vprint s e) = band e"
  by (simp_all add: vprint_def py_print_def)

lemma called_sel:
  "verbose (called s e) = verbose e" "radar (called s e) = radar e"
  "name_dz (called s e) = name_dz e" "name_dr (called s e) = name_dr e"
  "name_kd (called s e) = name_kd e" "name_rh (called s e) = name_rh e"
  "name_ld (called s e) = name_ld e" "name_dp (called s e) = name_dp e"
  "kdp_method (called s e) = kdp_method e" "bad (called s e) = bad e"
  "thresh_sdp (called s e) = thresh_sdp e" "gs (called s e) = gs e"
  "name_sdp (called s e) = name_sdp e" "kdp_window (called s e) = kdp_window e"
  "name_fdp (called s e) = name_fdp e" "T_flag (called s e) = T_flag e"
  "T_factor (called s e) = T_factor e" "snd_T (called s e) = snd_T e"
  "snd_z (called s e) = snd_z e" "radar_z (called s e) = radar_z e"
  "radar_T (called s e) = radar_T e" "winter_flag (called s e) = winter_flag e"
  "dz_range (called s e) = dz_range e" "dr_thresh (called s e) = dr_thresh e"
  "speckle (called s e) = speckle e" "name_fhc (called s e) = name_fhc e"
  "fhc_weights (called s e) = fhc_weights e" "fhc_method (called s e) = fhc_method e"
  "band (called s e) = band e"
  "out (called s e) = out e @ [Called s]"
  by (simp_all add: called_def)

lemma name_check_reaches_calculate_kdp:
  assumes "has_field (radar e) (name_dz e)" "has_field (radar e) (name_dr e)"
    "has_field (radar e) (name_rh e)"
    "case name_kd e of None \<Rightarrow> True | Some k \<Rightarrow> \<not> has_field (radar e) k"
  shows "\<exists>E. do_name_check X e = calculate_kdp X E \<and> radar E = radar e \<and>
           name_dz E = name_dz e \<and> name_dp E = name_dp e \<and> bad E = bad e \<and>
           gs E = gs e \<and> thresh_sdp E = thresh_sdp e \<and> kdp_method E = kdp_method e \<and>
           name_sdp E = name_sdp e"
  using assms
  by (cases "name_ld e"; cases "name_kd e")
     (auto simp: do_name_check_def Let_def vprint_sel)

text \<open>
  A commit on an engine whose base reflectivity field can be read succeeds for every well
  formed array of the shape of the volume: the new field obeys the masking propagation
  rule, and the base field can be read afterwards as well. The computation of specific
  differential phase with the method \<^verbatim>\<open>'CSU'\<close> is three such commits after one call
  of the estimator.
\<close>

lemma wf_array_asanyarray: "wf_array (asanyarray a) = wf_array a"
  by (cases a) (simp_all add: wf_array_def)

lemma base_ok_after_commit:
  assumes "base_ok e" and "wf_field (radar e) f" and "FillValue f \<noteq> None"
  shows "base_ok (e\<lparr>radar := (radar e)\<lparr>rfields := (rfields (radar e))(nm \<mapsto> f)\<rparr>\<rparr>)"
  using assms by (auto simp: base_ok_def wf_field_def split: option.splits)

lemma commit_propagates:
  assumes ok: "base_ok e" and wfa: "wf_array fld"
      and len: "length (arr_values fld) = nrays (radar e) * ngates (radar e)"
  shows "\<exists>base f. rfields (radar e) (name_dz e) = Some base \<and>
           add_field_to_radar_object e fld nm un lname sname =
             Inr (e\<lparr>radar := (radar e)\<lparr>rfields := (rfields (radar e))(nm \<mapsto> f)\<rparr>\<rparr>) \<and>
           propagated (bad e) base fld f \<and>
           units f = un \<and> long_name f = lname \<and> standard_name f = sname \<and>
           base_ok (e\<lparr>radar := (radar e)\<lparr>rfields := (rfields (radar e))(nm \<mapsto> f)\<rparr>\<rparr>)"
proof -
  from ok obtain base where base: "rfields (radar e) (name_dz e) = Some base"
    and wfb: "wf_field (radar e) base"
    and fill: "hasattr_mask (data base) \<longrightarrow> FillValue base \<noteq> None"
    by (auto simp: base_ok_def split: option.splits)
  show ?thesis
  proof (cases "data base")
    case (Plain vs)
    let ?f = "\<lparr>data = asanyarray fld, units = un, long_name = lname,
               standard_name = sname, FillValue = Some (bad e)\<rparr>"
    have c: "add_field_to_radar_object e fld nm un lname sname =
             Inr (e\<lparr>radar := (radar e)\<lparr>rfields := (rfields (radar e))(nm \<mapsto> ?f)\<rparr>\<rparr>)"
      using base Plain len by (simp add: commit_defs arr_values_asanyarray)
    have p: "propagated (bad e) base fld ?f"
      using Plain by (simp add: propagated_def arr_values_asanyarray getmaskarray_asanyarray)
    have w: "wf_field (radar e) ?f"
      using wfa len by (simp add: wf_field_def wf_array_asanyarray arr_values_asanyarray)
    from base_ok_after_commit [OF ok w, of nm] base c p show ?thesis
      by (intro exI [of _ base] exI [of _ ?f]) simp
  next
    case (Masked bvs m)
    obtain mf where mf: "setattr_mask (asanyarray fld) m = Inr mf"
      using setattr_mask_asanyarray by blast
    then have vals: "arr_values mf = arr_values fld"
      by (simp add: setattr_mask_values arr_values_asanyarray)
    from wfb Masked len have "length (getmaskarray (Masked bvs m)) = length (arr_values fld)"
      by (simp add: wf_field_def wf_array_def)
    from setattr_mask_bits [OF mf wfa this] have bits: "getmaskarray mf = getmaskarray (data base)"
      using Masked by simp
    from fill Masked obtain fv where fv: "FillValue base = Some fv" by auto
    let ?f = "\<lparr>data = mf, units = un, long_name = lname,
               standard_name = sname, FillValue = Some fv\<rparr>"
    have c: "add_field_to_radar_object e fld nm un lname sname =
             Inr (e\<lparr>radar := (radar e)\<lparr>rfields := (rfields (radar e))(nm \<mapsto> ?f)\<rparr>\<rparr>)"
      using base Masked mf fv vals len by (simp add: commit_defs)
    have p: "propagated (bad e) base fld ?f"
      using Masked vals bits fv by (simp add: propagated_def)
    have w: "wf_field (radar e) ?f"
      using wfb vals bits len by (simp add: wf_field_def wf_array_def)
    from base_ok_after_commit [OF ok w, of nm] base c p show ?thesis
      by (intro exI [of _ base] exI [of _ ?f]) simp
  qed
qed


lemma base_ok_cong:
  "radar e' = radar e \<Longrightarrow> name_dz e' = name_dz e \<Longrightarrow> base_ok e' = base_ok e"
  by (simp add: base_ok_def cong: option.case_cong)

lemma calculate_kdp_commits:
  assumes dp: "name_dp e = Some dp" "rfields (radar e) dp = Some fp"
      and dz: "rfields (radar e) (name_dz e) = Some fz"
      and ok: "base_ok e"
      and m: "upper (kdp_method e) = ''CSU''"
      and ext: "calc_kdp_bringi X (filled (data fp) (bad e)) (filled (data fz) (bad e))
                  (fst (meshgrid (map (\<lambda>x. x / RNG_MULT) (range_data (radar e)))
                          (azimuth_data (radar e))))
                  (gs e) (thresh_sdp e) (bad e) = (kdp, fdp, sdp)"
      and wf: "wf_array kdp" "wf_array fdp" "wf_array sdp"
      and len: "length (arr_values kdp) = nrays (radar e) * ngates (radar e)"
               "length (arr_values fdp) = nrays (radar e) * ngates (radar e)"
               "length (arr_values sdp) = nrays (radar e) * ngates (radar e)"
  shows "\<exists>e' f1 f2 f3 b2 b3.
           calculate_kdp X e = Inr (e', True) \<and>
           name_kd e' = Some (''KDP_'' @ kdp_method e) \<and>
           Called ''csu_kdp.calc_kdp_bringi'' \<in> set (out e') \<and>
           radar e' = (radar e)\<lparr>rfields := (rfields (radar e))
             (''FDP_'' @ kdp_method e \<mapsto> f1, name_sdp e \<mapsto> f2,
              ''KDP_'' @ kdp_method e \<mapsto> f3)\<rparr> \<and>
           propagated (bad e) fz fdp f1 \<and>
           ((rfields (radar e))(''FDP_'' @ kdp_method e \<mapsto> f1)) (name_dz e) = Some b2 \<and>
           propagated (bad e) b2 sdp f2 \<and>
           ((rfields (radar e))(''FDP_'' @ kdp_method e \<mapsto> f1, name_sdp e \<mapsto> f2))
             (name_dz e) = Some b3 \<and>
           propagated (bad e) b3 kdp f3 \<and>
           units f1 = ''deg'' \<and> long_name f1 = ''Filtered Differential Phase'' \<and>
           standard_name f1 = ''Filtered Differential Phase'' \<and>
           units f2 = ''deg'' \<and> long_name f2 = ''Standard Deviation of Differential Phase'' \<and>
           standard_name f2 = ''Std Dev Differential Phase'' \<and>
           units f3 = ''deg km-1'' \<and> long_name f3 = ''Specific Differential Phase'' \<and>
           standard_name f3 = ''KDP''"
proof -
  let ?FD = "''FDP_'' @ kdp_method e" and ?KD = "''KDP_'' @ kdp_method e"
  let ?e0 = "vprint ''Calculating KDP via CSU method'' e"
  let ?e1 = "(called ''csu_kdp.calc_kdp_bringi'' ?e0)\<lparr>name_fdp := Some ?FD\<rparr>"
  have ok1: "base_ok ?e1"
    using ok base_ok_cong [of ?e1 e] by (simp add: vprint_sel called_sel)
  from commit_propagates [OF ok1 wf(2), of ?FD "''deg''"
      "''Filtered Differential Phase''" "''Filtered Differential Phase''"] len(2) dz
  obtain f1 where
    c1: "add_field_to_radar_object ?e1 fdp ?FD ''deg''
           ''Filtered Differential Phase'' ''Filtered Differential Phase'' =
         Inr (?e1\<lparr>radar := (radar e)\<lparr>rfields := (rfields (radar e))(?FD \<mapsto> f1)\<rparr>\<rparr>)"
    and p1: "propagated (bad e) fz fdp f1"
    and m1: "units f1 = ''deg''" "long_name f1 = ''Filtered Differential Phase''"
            "standard_name f1 = ''Filtered Differential Phase''"
    and ok2: "base_ok (?e1\<lparr>radar := (radar e)\<lparr>rfields := (rfields (radar e))(?FD \<mapsto> f1)\<rparr>\<rparr>)"
    by (auto simp: vprint_sel called_sel)
  let ?e2 = "?e1\<lparr>radar := (radar e)\<lparr>rfields := (rfields (radar e))(?FD \<mapsto> f1)\<rparr>\<rparr>"
  from commit_propagates [OF ok2 wf(3), of "name_sdp e" "''deg''"
      "''Standard Deviation of Differential Phase''" "''Std Dev Differential Phase''"] len(3)
  obtain b2 f2 where
    b2: "((rfields (radar e))(?FD \<mapsto> f1)) (name_dz e) = Some b2"
    and c2: "add_field_to_radar_object ?e2 sdp (name_sdp e) ''deg''
           ''Standard Deviation of Differential Phase'' ''Std Dev Differential Phase'' =
         Inr (?e2\<lparr>radar := (radar e)\<lparr>rfields := (rfields (radar e))
                (?FD \<mapsto> f1, name_sdp e \<mapsto> f2)\<rparr>\<rparr>)"
    and p2: "propagated (bad e) b2 sdp f2"
    and m2: "units f2 = ''deg''" "long_name f2 = ''Standard Deviation of Differential Phase''"
            "standard_name f2 = ''Std Dev Differential Phase''"
    and ok3: "base_ok (?e2\<lparr>radar := (radar e)\<lparr>rfields := (rfields (radar e))
                (?FD \<mapsto> f1, name_sdp e \<mapsto> f2)\<rparr>\<rparr>)"
    by (auto simp: vprint_sel called_sel)
  let ?e3 = "?e2\<lparr>radar := (radar e)\<lparr>rfields := (rfields (radar e))
                (?FD \<mapsto> f1, name_sdp e \<mapsto> f2)\<rparr>\<rparr>"
  let ?e4 = "?e3\<lparr>name_kd := Some ?KD\<rparr>"
  have ok4: "base_ok ?e4"
    using ok3 base_ok_cong [of ?e4 ?e3] by simp
  from commit_propagates [OF ok4 wf(1), of ?KD "''deg km-1''"
      "''Specific Differential Phase''" "''KDP''"] len(1)
  obtain b3 f3 where
    b3: "((rfields (radar e))(?FD \<mapsto> f1, name_sdp e \<mapsto> f2)) (name_dz e) = Some b3"
    and c3: "add_field_to_radar_object ?e4 kdp ?KD ''deg km-1''
           ''Specific Differential Phase'' ''KDP'' =
         Inr (?e4\<lparr>radar := (radar e)\<lparr>rfields := (rfields (radar e))
                (?FD \<mapsto> f1, name_sdp e \<mapsto> f2, ?KD \<mapsto> f3)\<rparr>\<rparr>)"
    and p3: "propagated (bad e) b3 kdp f3"
    and m3: "units f3 = ''deg km-1''" "long_name f3 = ''Specific Differential Phase''"
            "standard_name f3 = ''KDP''"
    by (auto simp: vprint_sel called_sel)
  let ?e5 = "?e4\<lparr>radar := (radar e)\<lparr>rfields := (rfields (radar e))
                (?FD \<mapsto> f1, name_sdp e \<mapsto> f2, ?KD \<mapsto> f3)\<rparr>\<rparr>"
  have x1: "extract_unmasked_data ?e0 dp None = Inr (filled (data fp) (bad e))"
    using extract_unmasked_data_eq [of ?e0 dp fp] dp(2) by (simp add: vprint_sel)
  have x2: "extract_unmasked_data ?e0 (name_dz e) None = Inr (filled (data fz) (bad e))"
    using extract_unmasked_data_eq [of ?e0 "name_dz e" fz] dz by (simp add: vprint_sel)
  have call: "call_csu_kdp X e = Inr (?e3, kdp)"
    using dp(1) x1 x2 ext c1 c2
    by (simp add: call_csu_kdp_def Let_def vprint_sel called_sel case_prod_beta)
  from dp(2) have hdp: "has_field (radar e) dp" by (simp add: has_field_def)
  have calc: "calculate_kdp X e = Inr (?e5, True)"
    using dp(1) hdp m call c3
    by (simp add: calculate_kdp_def Let_def vprint_sel called_sel)
  have fin: "name_kd ?e5 = Some ?KD \<and> Called ''csu_kdp.calc_kdp_bringi'' \<in> set (out ?e5) \<and>
        radar ?e5 = (radar e)\<lparr>rfields := (rfields (radar e))
                (?FD \<mapsto> f1, name_sdp e \<mapsto> f2, ?KD \<mapsto> f3)\<rparr>"
    by (simp add: vprint_sel called_sel)
  from calc fin p1 b2 p2 b3 p3 m1 m2 m3 show ?thesis
    by blast
qed

text \<open>
  No stage of the constructor after the name check removes a field from the volume or
  rebinds \<open>name_kd\<close>, whether the stage returns or raises.
\<close>

lemma keeps_refl: "keeps e e"
  by (simp add: keeps_def)

lemma keeps_log:
  "keeps e (called s x) = keeps e x" "keeps e (vprint s x) = keeps e x"
  "keeps e (py_print s x) = keeps e x" "keeps e (warnings_warn s x) = keeps e x"
  by (simp_all add: keeps_def called_def vprint_def py_print_def warnings_warn_def)

lemma bind_keeps:
  assumes "keeps e (result_engine m)"
      and "\<And>y. keeps e y \<Longrightarrow> keeps e (result_engine (f y))"
  shows "keeps e (result_engine (pybind m f))"
proof (cases m)
  case (Inl a)
  with assms(1) show ?thesis by (cases a) simp
next
  case (Inr y)
  with assms show ?thesis by simp
qed

lemma lift_then_keeps:
  assumes "keeps e x" and "\<And>v. keeps e (result_engine (f v))"
  shows "keeps e (result_engine (pybind (lift x m) f))"
  using assms by (cases m) simp_all

lemma attr_then_keeps:
  assumes "keeps e x" and "\<And>v. keeps e (result_engine (f v))"
  shows "keeps e (result_engine (pybind (attr x n a) f))"
  using assms by (cases a) simp_all

lemma field_data_then_keeps:
  assumes "keeps e x" and "\<And>v. keeps e (result_engine (f v))"
  shows "keeps e (result_engine (pybind (field_data x n) f))"
  using assms
  by (cases n) (auto simp: field_data_def lookup_field_def split: option.splits)

lemma extract_then_keeps:
  assumes "keeps e x" and "\<And>v. keeps e (result_engine (f v))"
  shows "keeps e (result_engine (pybind (extract_unmasked_data x n b) f))"
  using assms
  by (auto simp: extract_unmasked_data_def lookup_field_def Let_def split: option.splits)

lemma commit_keeps:
  assumes "keeps e x"
  shows "keeps e (result_engine (add_field_to_radar_object x fld nm un lname sname))"
  using commit_cases [of x fld nm un lname sname] assms
  by (auto simp: keeps_def has_field_def)

lemma get_dsd_keeps:
  "keeps e x \<Longrightarrow> keeps e (result_engine (get_dsd X x))"
  by (auto simp: get_dsd_def Let_def case_prod_beta keeps_log
      intro!: field_data_then_keeps attr_then_keeps bind_keeps commit_keeps)

lemma mass_keeps:
  "keeps e x \<Longrightarrow> keeps e (result_engine (get_liquid_and_frozen_mass X x))"
  by (auto simp: get_liquid_and_frozen_mass_def Let_def case_prod_beta keeps_log
      intro!: field_data_then_keeps attr_then_keeps bind_keeps commit_keeps)

lemma pybind_assoc:
  "pybind (pybind m g) f = pybind m (\<lambda>v. pybind (g v) f)"
proof (cases m)
  case (Inl a)
  then show ?thesis by simp
next
  case (Inr v)
  then show ?thesis by simp
qed

lemma get_hid_keeps:
  "keeps e x \<Longrightarrow> keeps e (result_engine (get_hid X x))"
  by (auto simp: get_hid_def Let_def case_prod_beta keeps_log pybind_assoc
      intro!: field_data_then_keeps attr_then_keeps bind_keeps commit_keeps
      split: option.splits)

lemma get_precip_rate_keeps:
  "keeps e x \<Longrightarrow> keeps e (result_engine (get_precip_rate X x ice rm))"
  by (auto simp: get_precip_rate_def Let_def case_prod_beta keeps_log pybind_assoc
      intro!: field_data_then_keeps attr_then_keeps bind_keeps commit_keeps)



lemma do_qc_keeps:
  "keeps e x \<Longrightarrow> keeps e (result_engine (do_qc X x))"
  by (auto simp: do_qc_def Let_def case_prod_beta keeps_log
      intro!: extract_then_keeps attr_then_keeps lift_then_keeps)
     (auto simp: keeps_def has_field_def called_def vprint_def py_print_def)

lemma check_sounding_keeps:
  "keeps e x \<Longrightarrow> keeps e (result_engine (check_sounding_for_montonic x))"
  by (auto simp: check_sounding_for_montonic_def Let_def case_prod_beta pybind_assoc
      intro!: attr_then_keeps lift_then_keeps split: option.splits)
     (auto simp: keeps_def)

lemma get_sounding_keeps:
  "keeps e x \<Longrightarrow> keeps e (result_engine (get_sounding X x s))"
proof -
  assume k: "keeps e x"
  have i: "keeps e y \<Longrightarrow> keeps e (result_engine (interpolate_sounding_to_radar X y))" for y
    by (auto simp: interpolate_sounding_to_radar_def Let_def keeps_log
        intro!: bind_keeps attr_then_keeps check_sounding_keeps)
       (auto simp: keeps_def vprint_def py_print_def)
  from k show ?thesis
    by (auto simp: get_sounding_def Let_def ingest_def keeps_log intro!: i
        split: sounding_arg.splits option.splits)
       (auto simp: keeps_def py_print_def)
qed

lemma init_stages_keeps:
  "keeps e x \<Longrightarrow> keeps e (result_engine (init_stages X kw x))"
  by (auto simp: init_stages_def Let_def keeps_log
      intro!: bind_keeps get_sounding_keeps do_qc_keeps get_hid_keeps get_precip_rate_keeps
        get_dsd_keeps mass_keeps)
     (auto simp: keeps_def vprint_def py_print_def)

text \<open>
  C8. Let the volume hold the fields bound to reflectivity, differential reflectivity,
  correlation coefficient and differential phase, and no field under the name bound to
  specific differential phase (or let that name be \<^verbatim>\<open>None\<close>). Let the method be
  \<^verbatim>\<open>'CSU'\<close> in any case of letters, let the reflectivity field be well formed, with
  a fill value if its data is a masked array, and let the estimator return well formed
  arrays of the shape of the volume. Then the name check, with which the constructor
  starts, returns \<^verbatim>\<open>True\<close> and the constructor goes on with its stages from the engine
  that the check leaves. In that engine the estimator has been invoked on the unmasked
  differential phase and reflectivity, \<open>name_kd\<close> is bound to \<^verbatim>\<open>'KDP_'\<close> plus the
  method, and the volume is the given one with three fields added, in this order: the
  filtered differential phase under \<^verbatim>\<open>'FDP_'\<close> plus the method, the phase-noise
  standard deviation under \<open>name_sdp\<close>, and the specific differential phase under
  \<^verbatim>\<open>'KDP_'\<close> plus the method. Each of the three holds the values that the estimator
  returned and obeys the masking propagation rule with respect to the base reflectivity
  field at the time of its commit, which is the given reflectivity field unless the name
  of the reflectivity is one of the two names committed before; each has the units and
  names that \<open>call_csu_kdp\<close> gives it. Whatever the later stages do, the engine that the
  constructor ends with has \<open>name_kd\<close> bound to \<^verbatim>\<open>'KDP_'\<close> plus the method and a
  volume that holds a field under each of the three names.
\<close>

theorem C8_construction_commits_kdp_by_propagation:
  assumes dr: "has_field r (kw_dr kw)" and rh: "has_field r (kw_rh kw)"
      and nokd: "case kw_kd kw of None \<Rightarrow> True | Some k \<Rightarrow> \<not> has_field r k"
      and dp: "kw_dp kw = Some dp" "rfields r dp = Some fp"
      and dz: "rfields r (kw_dz kw) = Some fz"
      and wfz: "wf_field r fz"
      and fill: "hasattr_mask (data fz) \<longrightarrow> FillValue fz \<noteq> None"
      and m: "upper (kw_kdp_method kw) = ''CSU''"
      and ext: "calc_kdp_bringi X (filled (data fp) (kw_bad kw)) (filled (data fz) (kw_bad kw))
                  (fst (meshgrid (map (\<lambda>x. x / RNG_MULT) (range_data r)) (azimuth_data r)))
                  (kw_gs kw) (kw_thresh_sdp kw) (kw_bad kw) = (kdp, fdp, sdp)"
      and wf: "wf_array kdp" "wf_array fdp" "wf_array sdp"
      and len: "length (arr_values kdp) = nrays r * ngates r"
               "length (arr_values fdp) = nrays r * ngates r"
               "length (arr_values sdp) = nrays r * ngates r"
  shows "\<exists>e' f1 f2 f3 b2 b3.
           do_name_check X (init_attributes r kw) = Inr (e', True) \<and>
           init X r kw = init_stages X kw e' \<and>
           name_kd e' = Some (''KDP_'' @ kw_kdp_method kw) \<and>
           Called ''csu_kdp.calc_kdp_bringi'' \<in> set (out e') \<and>
           radar e' = r\<lparr>rfields := (rfields r)
             (''FDP_'' @ kw_kdp_method kw \<mapsto> f1, kw_name_sdp kw \<mapsto> f2,
              ''KDP_'' @ kw_kdp_method kw \<mapsto> f3)\<rparr> \<and>
           propagated (kw_bad kw) fz fdp f1 \<and>
           ((rfields r)(''FDP_'' @ kw_kdp_method kw \<mapsto> f1)) (kw_dz kw) = Some b2 \<and>
           propagated (kw_bad kw) b2 sdp f2 \<and>
           ((rfields r)(''FDP_'' @ kw_kdp_method kw \<mapsto> f1, kw_name_sdp kw \<mapsto> f2))
             (kw_dz kw) = Some b3 \<and>
           propagated (kw_bad kw) b3 kdp f3 \<and>
           (kw_dz kw \<noteq> ''FDP_'' @ kw_kdp_method kw \<and> kw_dz kw \<noteq> kw_name_sdp kw \<longrightarrow>
              b2 = fz \<and> b3 = fz) \<and>
           units f1 = ''deg'' \<and> long_name f1 = ''Filtered Differential Phase'' \<and>
           standard_name f1 = ''Filtered Differential Phase'' \<and>
           units f2 = ''deg'' \<and> long_name f2 = ''Standard Deviation of Differential Phase'' \<and>
           standard_name f2 = ''Std Dev Differential Phase'' \<and>
           units f3 = ''deg km-1'' \<and> long_name f3 = ''Specific Differential Phase'' \<and>
           standard_name f3 = ''KDP'' \<and>
           name_kd (result_engine (init X r kw)) = Some (''KDP_'' @ kw_kdp_method kw) \<and>
           has_field (radar (result_engine (init X r kw))) (''KDP_'' @ kw_kdp_method kw) \<and>
           has_field (radar (result_engine (init X r kw))) (''FDP_'' @ kw_kdp_method kw) \<and>
           has_field (radar (result_engine (init X r kw))) (kw_name_sdp kw)"
proof -
  let ?e = "init_attributes r kw"
  let ?FD = "''FDP_'' @ kw_kdp_method kw" and ?KD = "''KDP_'' @ kw_kdp_method kw"
  have sel: "radar ?e = r" "name_dz ?e = kw_dz kw" "name_dr ?e = kw_dr kw"
    "name_rh ?e = kw_rh kw" "name_kd ?e = kw_kd kw" "name_dp ?e = kw_dp kw"
    "bad ?e = kw_bad kw" "gs ?e = kw_gs kw" "thresh_sdp ?e = kw_thresh_sdp kw"
    "kdp_method ?e = kw_kdp_method kw" "name_sdp ?e = kw_name_sdp kw"
    by (simp_all add: init_attributes_def)
  from dz have hdz: "has_field r (kw_dz kw)" by (simp add: has_field_def)
  from name_check_reaches_calculate_kdp [of ?e X] hdz dr rh nokd obtain E where
    E: "do_name_check X ?e = calculate_kdp X E" and selE: "radar E = r"
    "name_dz E = kw_dz kw" "name_dp E = kw_dp kw" "bad E = kw_bad kw" "gs E = kw_gs kw"
    "thresh_sdp E = kw_thresh_sdp kw" "kdp_method E = kw_kdp_method kw"
    "name_sdp E = kw_name_sdp kw"
    unfolding sel by blast
  have ok: "base_ok E"
    using dz wfz fill selE by (simp add: base_ok_def)
  from calculate_kdp_commits [of E dp fp fz X kdp fdp sdp] dp dz ok m ext wf len
  obtain e' f1 f2 f3 b2 b3 where
    c: "calculate_kdp X E = Inr (e', True)"
    and nk: "name_kd e' = Some ?KD"
    and log: "Called ''csu_kdp.calc_kdp_bringi'' \<in> set (out e')"
    and rad: "radar e' = r\<lparr>rfields := (rfields r)
                (?FD \<mapsto> f1, kw_name_sdp kw \<mapsto> f2, ?KD \<mapsto> f3)\<rparr>"
    and p1: "propagated (kw_bad kw) fz fdp f1"
    and b2: "((rfields r)(?FD \<mapsto> f1)) (kw_dz kw) = Some b2"
    and p2: "propagated (kw_bad kw) b2 sdp f2"
    and b3: "((rfields r)(?FD \<mapsto> f1, kw_name_sdp kw \<mapsto> f2)) (kw_dz kw) = Some b3"
    and p3: "propagated (kw_bad kw) b3 kdp f3"
    and meta: "units f1 = ''deg''" "long_name f1 = ''Filtered Differential Phase''"
      "standard_name f1 = ''Filtered Differential Phase''"
      "units f2 = ''deg''" "long_name f2 = ''Standard Deviation of Differential Phase''"
      "standard_name f2 = ''Std Dev Differential Phase''"
      "units f3 = ''deg km-1''" "long_name f3 = ''Specific Differential Phase''"
      "standard_name f3 = ''KDP''"
    unfolding selE by blast
  from E c have nc: "do_name_check X ?e = Inr (e', True)" by simp
  then have run: "init X r kw = init_stages X kw e'"
    by (simp add: init_def)
  from b2 b3 dz have same: "kw_dz kw \<noteq> ?FD \<and> kw_dz kw \<noteq> kw_name_sdp kw \<longrightarrow> b2 = fz \<and> b3 = fz"
    by auto
  from init_stages_keeps [OF keeps_refl, of e' X kw]
  have k: "keeps e' (result_engine (init X r kw))"
    by (simp add: run)
  from rad have "has_field (radar e') ?KD" "has_field (radar e') ?FD"
    "has_field (radar e') (kw_name_sdp kw)"
    by (simp_all add: has_field_def)
  with k nk have fin: "name_kd (result_engine (init X r kw)) = Some ?KD"
    "has_field (radar (result_engine (init X r kw))) ?KD"
    "has_field (radar (result_engine (init X r kw))) ?FD"
    "has_field (radar (result_engine (init X r kw))) (kw_name_sdp kw)"
    by (simp_all add: keeps_def)
  from nc run nk log rad p1 b2 p2 b3 p3 same meta fin show ?thesis
    by blast
qed

text \<open>
  Witness for C8: on the example volume with the default keyword arguments and
  \<^verbatim>\<open>dp='DP'\<close>, the specific differential phase that is committed has the values of
  the estimator, the mask \<open>[False, True]\<close> of the reflectivity and its fill value
  \<open>-9999\<close>.
\<close>

theorem C8_construction_commits_kdp_witness:
  "has_field ex_volume ''DP'' \<and> \<not> has_field ex_volume ''KDP_CSU'' \<and>
   (\<exists>e' f1 f2 f3.
      init ex_externals ex_volume ex_kwargs = init_stages ex_externals ex_kwargs e' \<and>
      name_kd e' = Some ''KDP_CSU'' \<and>
      radar e' = ex_volume\<lparr>rfields := (rfields ex_volume)
        (''FDP_CSU'' \<mapsto> f1, ''SDP_CSU'' \<mapsto> f2, ''KDP_CSU'' \<mapsto> f3)\<rparr> \<and>
      arr_values (data f1) = [40, 50] \<and> arr_values (data f2) = [5, 5] \<and>
      arr_values (data f3) = [0, 0] \<and>
      getmaskarray (data f3) = [False, True] \<and> FillValue f3 = Some (- 9999)) \<and>
   has_field (radar (result_engine (init ex_externals ex_volume ex_kwargs))) ''KDP_CSU''"
proof -
  let ?fz = "ex_field (Masked [30, 10] (MaskArr [False, True]))"
  let ?fp = "ex_field (Masked [40, 50] NoMask)"
  have h1: "has_field ex_volume (kw_dr ex_kwargs)" and h2: "has_field ex_volume (kw_rh ex_kwargs)"
    and h3: "case kw_kd ex_kwargs of None \<Rightarrow> True | Some k \<Rightarrow> \<not> has_field ex_volume k"
    and h4: "kw_dp ex_kwargs = Some ''DP''"
    and h5: "rfields ex_volume ''DP'' = Some ?fp"
    and h6: "rfields ex_volume (kw_dz ex_kwargs) = Some ?fz"
    and h7: "wf_field ex_volume ?fz"
    and h8: "hasattr_mask (data ?fz) \<longrightarrow> FillValue ?fz \<noteq> None"
    and h9: "upper (kw_kdp_method ex_kwargs) = ''CSU''"
    by (simp_all add: ex_defs has_field_def upper_def upper_char_def wf_field_def wf_array_def)
  have h10: "calc_kdp_bringi ex_externals (filled (data ?fp) (kw_bad ex_kwargs))
               (filled (data ?fz) (kw_bad ex_kwargs))
               (fst (meshgrid (map (\<lambda>x. x / RNG_MULT) (range_data ex_volume))
                       (azimuth_data ex_volume)))
               (kw_gs ex_kwargs) (kw_thresh_sdp ex_kwargs) (kw_bad ex_kwargs) =
             (Plain [0, 0], Plain [40, 50], Plain [5, 5])"
    by (simp add: ex_defs)
  have h11: "wf_array (Plain [0, 0])" and h12: "wf_array (Plain [40, 50])"
    and h13: "wf_array (Plain [5, 5])"
    by (simp_all add: wf_array_def)
  have h14: "length (arr_values (Plain [0, 0])) = nrays ex_volume * ngates ex_volume"
    and h15: "length (arr_values (Plain [40, 50])) = nrays ex_volume * ngates ex_volume"
    and h16: "length (arr_values (Plain [5, 5])) = nrays ex_volume * ngates ex_volume"
    by (simp_all add: ex_defs)
  have n: "kw_kdp_method ex_kwargs = ''CSU''" "kw_name_sdp ex_kwargs = ''SDP_CSU''"
    "kw_dz ex_kwargs = ''DZ''" "kw_bad ex_kwargs = BAD"
    by (simp_all add: ex_kwargs_def DEFAULT_KW_def)
  have v: "has_field ex_volume ''DP'' \<and> \<not> has_field ex_volume ''KDP_CSU''"
    by (simp add: ex_defs has_field_def)
  from C8_construction_commits_kdp_by_propagation
         [OF h1 h2 h3 h4 h5 h6 h7 h8 h9 h10 h11 h12 h13 h14 h15 h16]
  obtain e' f1 f2 f3 b2 b3 where
    "init ex_externals ex_volume ex_kwargs = init_stages ex_externals ex_kwargs e'"
    "name_kd e' = Some ''KDP_CSU''"
    "radar e' = ex_volume\<lparr>rfields := (rfields ex_volume)
        (''FDP_CSU'' \<mapsto> f1, ''SDP_CSU'' \<mapsto> f2, ''KDP_CSU'' \<mapsto> f3)\<rparr>"
    "propagated BAD ?fz (Plain [40, 50]) f1"
    "propagated BAD b2 (Plain [5, 5]) f2"
    "propagated BAD b3 (Plain [0, 0]) f3"
    "b2 = ?fz \<and> b3 = ?fz"
    "has_field (radar (result_engine (init ex_externals ex_volume ex_kwargs))) ''KDP_CSU''"
    unfolding n by auto
  with v show ?thesis
    by (auto simp: propagated_def ex_field_def)
qed

text \<open>
  Two constructions on a volume that holds differential phase and no specific
  differential phase. In the first the reflectivity is a masked array whose field has no
  \<^verbatim>\<open>'_FillValue'\<close>: the first commit raises \<^verbatim>\<open>KeyError\<close>. In the second the method
  is \<^verbatim>\<open>'foo'\<close>: \<open>call_csu_kdp\<close> is not called and the commit of the unbound local
  \<^verbatim>\<open>kdp\<close> raises \<^verbatim>\<open>UnboundLocalError\<close>. Neither leaves a new field in the volume.
\<close>

lemma run_without_fill_value:
  "\<exists>e. init ex_externals ex_volume_nofill ex_kwargs = Inl (KeyError ''_FillValue'', e) \<and>
        radar e = ex_volume_nofill"
  by (simp add: run_defs commit_defs ex_defs)

lemma run_with_other_method:
  "\<exists>e. init ex_externals ex_volume (ex_kwargs\<lparr>kw_kdp_method := ''foo''\<rparr>) =
          Inl (UnboundLocalError ''kdp'', e) \<and> radar e = ex_volume"
  by (simp add: run_defs commit_defs ex_defs)

text \<open>
  Counterexample to C8 as stated, for every volume without specific differential phase
  and with differential phase: on these two constructions an exception is raised and
  the volume is the given one, with nothing committed.
\<close>

theorem C8_construction_raises_before_commit:
  "has_field ex_volume_nofill ''DP'' \<and> \<not> has_field ex_volume_nofill ''KDP_CSU'' \<and>
   raised (init ex_externals ex_volume_nofill ex_kwargs) = Some (KeyError ''_FillValue'') \<and>
   radar (result_engine (init ex_externals ex_volume_nofill ex_kwargs)) = ex_volume_nofill \<and>
   has_field ex_volume ''DP'' \<and> \<not> has_field ex_volume ''KDP_foo'' \<and>
   raised (init ex_externals ex_volume (ex_kwargs\<lparr>kw_kdp_method := ''foo''\<rparr>)) =
     Some (UnboundLocalError ''kdp'') \<and>
   radar (result_engine (init ex_externals ex_volume (ex_kwargs\<lparr>kw_kdp_method := ''foo''\<rparr>))) =
     ex_volume"
proof -
  have "has_field ex_volume_nofill ''DP'' \<and> \<not> has_field ex_volume_nofill ''KDP_CSU'' \<and>
        has_field ex_volume ''DP'' \<and> \<not> has_field ex_volume ''KDP_foo''"
    by (simp add: ex_defs has_field_def)
  with run_without_fill_value run_with_other_method show ?thesis by auto
qed

text \<open>
  When a mandatory field is missing, or there is no path to specific differential phase,
  the name check warns and returns \<^verbatim>\<open>False\<close>; it changes nothing but
  \<open>name_ld\<close> and the output.
\<close>

lemma name_check_fails:
  assumes "\<not> has_field (radar e) (name_dz e) \<or> \<not> has_field (radar e) (name_dr e) \<or>
           \<not> has_field (radar e) (name_rh e) \<or>
           ((case name_kd e of None \<Rightarrow> True | Some k \<Rightarrow> \<not> has_field (radar e) k) \<and>
            (case name_dp e of None \<Rightarrow> True | Some d \<Rightarrow> \<not> has_field (radar e) d))"
  shows "\<exists>e1. do_name_check X e = Inr (e1, False) \<and> radar e1 = radar e \<and>
           name_fdp e1 = name_fdp e \<and> T_flag e1 = T_flag e \<and>
           T_factor e1 = T_factor e \<and> snd_T e1 = snd_T e \<and>
           snd_z e1 = snd_z e \<and> radar_z e1 = radar_z e \<and>
           radar_T e1 = radar_T e \<and> winter_flag e1 = winter_flag e \<and>
           dz_range e1 = dz_range e \<and> dr_thresh e1 = dr_thresh e \<and>
           speckle e1 = speckle e \<and> name_fhc e1 = name_fhc e \<and>
           fhc_weights e1 = fhc_weights e \<and> fhc_method e1 = fhc_method e \<and>
           band e1 = band e \<and>
           (\<exists>w. Warned w \<in> set (out e1)) \<and>
           (\<forall>c. Called c \<in> set (out e1) \<longrightarrow> Called c \<in> set (out e))"
proof (cases "has_field (radar e) (name_dz e) \<and> has_field (radar e) (name_dr e) \<and>
              has_field (radar e) (name_rh e)")
  case False
  then show ?thesis
    by (auto simp: do_name_check_def Let_def warnings_warn_def)
next
  case True
  with assms have kd: "case name_kd e of None \<Rightarrow> True | Some k \<Rightarrow> \<not> has_field (radar e) k"
    and dp: "case name_dp e of None \<Rightarrow> True | Some d \<Rightarrow> \<not> has_field (radar e) d"
    by auto
  from True kd dp show ?thesis
    by (cases "name_ld e"; cases "name_kd e"; cases "name_dp e")
       (auto simp: do_name_check_def Let_def calculate_kdp_def vprint_def py_print_def
          warnings_warn_def)
qed

subsection \<open>Construction with a missing field\<close>

text \<open>
  C4, as the code has it. When the field bound to reflectivity, to differential
  reflectivity or to the correlation coefficient is absent from the volume, or when there
  is no path to specific differential phase, the constructor raises nothing: it issues a
  warning and returns early. The caller receives an engine on which none of the
  attributes of the later stages is set, for which no external algorithm was invoked and
  whose volume is unchanged.
\<close>

theorem C4_missing_field_warns_and_returns:
  assumes "\<not> has_field r (kw_dz kw) \<or> \<not> has_field r (kw_dr kw) \<or>
           \<not> has_field r (kw_rh kw) \<or> no_kdp_path r kw"
  shows "\<exists>e. init X r kw = Inr e \<and> radar e = r \<and>
             (\<exists>w. Warned w \<in> set (out e)) \<and> (\<forall>c. Called c \<notin> set (out e)) \<and>
             name_fdp e = None \<and> T_flag e = None \<and> T_factor e = None \<and>
             snd_T e = None \<and> snd_z e = None \<and> radar_z e = None \<and>
             radar_T e = None \<and> winter_flag e = None \<and> dz_range e = None \<and>
             dr_thresh e = None \<and> speckle e = None \<and> name_fhc e = None \<and>
             fhc_weights e = None \<and> fhc_method e = None \<and> band e = None"
proof -
  let ?e = "init_attributes r kw"
  have sel: "radar ?e = r" "name_dz ?e = kw_dz kw" "name_dr ?e = kw_dr kw"
    "name_rh ?e = kw_rh kw" "name_kd ?e = kw_kd kw" "name_dp ?e = kw_dp kw"
    "name_fdp ?e = None" "T_flag ?e = None" "T_factor ?e = None" "snd_T ?e = None"
    "snd_z ?e = None" "radar_z ?e = None" "radar_T ?e = None" "winter_flag ?e = None"
    "dz_range ?e = None" "dr_thresh ?e = None" "speckle ?e = None" "name_fhc ?e = None"
    "fhc_weights ?e = None" "fhc_method ?e = None" "band ?e = None"
    "out ?e = []"
    by (simp_all add: init_attributes_def)
  from assms
  have "\<not> has_field (radar ?e) (name_dz ?e) \<or> \<not> has_field (radar ?e) (name_dr ?e) \<or>
        \<not> has_field (radar ?e) (name_rh ?e) \<or>
        ((case name_kd ?e of None \<Rightarrow> True | Some k \<Rightarrow> \<not> has_field (radar ?e) k) \<and>
         (case name_dp ?e of None \<Rightarrow> True | Some d \<Rightarrow> \<not> has_field (radar ?e) d))"
    unfolding sel no_kdp_path_def by simp
  from name_check_fails [OF this, of X] obtain e1 where
    "do_name_check X ?e = Inr (e1, False)" "radar e1 = radar ?e"
    "name_fdp e1 = name_fdp ?e" "T_flag e1 = T_flag ?e" "T_factor e1 = T_factor ?e"
    "snd_T e1 = snd_T ?e" "snd_z e1 = snd_z ?e" "radar_z e1 = radar_z ?e"
    "radar_T e1 = radar_T ?e" "winter_flag e1 = winter_flag ?e" "dz_range e1 = dz_range ?e"
    "dr_thresh e1 = dr_thresh ?e" "speckle e1 = speckle ?e" "name_fhc e1 = name_fhc ?e"
    "fhc_weights e1 = fhc_weights ?e" "fhc_method e1 = fhc_method ?e" "band e1 = band ?e"
    "\<exists>w. Warned w \<in> set (out e1)"
    "\<forall>c. Called c \<in> set (out e1) \<longrightarrow> Called c \<in> set (out ?e)"
    by blast
  then show ?thesis
    unfolding sel by (simp add: init_def)
qed

text \<open>Witness for C4: the example volume has no field \<open>ZZ\<close>.\<close>

theorem C4_missing_field_warns_and_returns_witness:
  "\<not> has_field ex_volume ''ZZ'' \<and>
   (\<exists>e. init ex_externals ex_volume (ex_kwargs\<lparr>kw_dz := ''ZZ''\<rparr>) = Inr e \<and>
        radar e = ex_volume \<and> (\<exists>w. Warned w \<in> set (out e)) \<and> T_flag e = None)"
proof -
  have h: "\<not> has_field ex_volume (kw_dz (ex_kwargs\<lparr>kw_dz := ''ZZ''\<rparr>)) \<or>
           \<not> has_field ex_volume (kw_dr (ex_kwargs\<lparr>kw_dz := ''ZZ''\<rparr>)) \<or>
           \<not> has_field ex_volume (kw_rh (ex_kwargs\<lparr>kw_dz := ''ZZ''\<rparr>)) \<or>
           no_kdp_path ex_volume (ex_kwargs\<lparr>kw_dz := ''ZZ''\<rparr>)"
    by (simp add: ex_defs has_field_def)
  have "\<not> has_field ex_volume ''ZZ''"
    by (simp add: ex_defs has_field_def)
  with C4_missing_field_warns_and_returns [OF h, of ex_externals] show ?thesis
    by auto
qed

text \<open>
  Counterexample to C4 as stated: with the reflectivity bound to a name that the volume
  does not have, the constructor returns an engine, which carries the warning.
\<close>

theorem C4_construction_returns_partial_engine:
  "init ex_externals ex_volume (ex_kwargs\<lparr>kw_dz := ''ZZ''\<rparr>) =
     Inr ((init_attributes ex_volume (ex_kwargs\<lparr>kw_dz := ''ZZ''\<rparr>))
            \<lparr>out := [Warned ''ZZ field not in radar object, check variable names'']\<rparr>)"
  by (simp add: run_defs commit_defs ex_defs)

subsection \<open>Precipitation rate without classification\<close>

text \<open>
  C5, as the code has it. Let the method be \<^verbatim>\<open>'hidro'\<close> and let the volume have no
  field of the classification name, the fields of reflectivity, differential reflectivity
  and specific differential phase being there. With the winter flag off,
  \<open>get_precip_rate\<close> raises \<^verbatim>\<open>KeyError\<close> for the classification name, with the
  engine, and so the list of invoked algorithms, as it was. With the winter flag on it
  prints a notice and returns, signalling nothing.
\<close>

theorem C5_hidro_without_classification:
  assumes "winter_flag e = Some winter" and "name_fhc e = Some nm"
      and "\<not> has_field (radar e) nm"
      and "has_field (radar e) (name_dz e)" and "has_field (radar e) (name_dr e)"
      and "name_kd e = Some kd" and "has_field (radar e) kd"
  shows "get_precip_rate X e ice_flag ''hidro'' =
           (if winter then Inr (py_print ''Winter precip not enabled yet, sorry!'' e)
            else Inl (KeyError nm, e))"
  using assms
  by (auto simp: get_precip_rate_def field_data_def lookup_field_def has_field_def
        split: option.splits)

text \<open>Witness for C5: the winter flag is off and the volume has no field \<open>FH\<close>.\<close>

theorem C5_hidro_without_classification_witness:
  "\<not> has_field ex_volume ''FH'' \<and>
   get_precip_rate ex_externals
     ((init_attributes ex_volume ex_kwargs)
        \<lparr>name_kd := Some ''DP'', winter_flag := Some False, name_fhc := Some ''FH''\<rparr>)
     False ''hidro'' =
   Inl (KeyError ''FH'',
     (init_attributes ex_volume ex_kwargs)
        \<lparr>name_kd := Some ''DP'', winter_flag := Some False, name_fhc := Some ''FH''\<rparr>)"
proof -
  let ?e = "(init_attributes ex_volume ex_kwargs)
        \<lparr>name_kd := Some ''DP'', winter_flag := Some False, name_fhc := Some ''FH''\<rparr>"
  have h1: "winter_flag ?e = Some False" and h2: "name_fhc ?e = Some ''FH''"
    and h3: "\<not> has_field (radar ?e) ''FH''"
    and h4: "has_field (radar ?e) (name_dz ?e)" and h5: "has_field (radar ?e) (name_dr ?e)"
    and h6: "name_kd ?e = Some ''DP''" and h7: "has_field (radar ?e) ''DP''"
    by (simp_all add: ex_defs has_field_def)
  have "\<not> has_field ex_volume ''FH''"
    by (simp add: ex_defs has_field_def)
  with C5_hidro_without_classification [OF h1 h2 h3 h4 h5 h6 h7, of ex_externals False]
  show ?thesis by simp
qed

text \<open>
  The run of the constructor with the method \<^verbatim>\<open>'hidro'\<close>, classification and
  drop-size retrieval disabled, and the winter flag on.
\<close>

lemma winter_run:
  "\<exists>e. init ex_externals ex_volume
          (ex_kwargs\<lparr>kw_fhc_flag := False, kw_winter := True, kw_dsd_flag := False\<rparr>) = Inr e \<and>
        out e = [Called ''csu_kdp.calc_kdp_bringi'', Printed ''No sounding provided'',
                 Printed ''Winter precip not enabled yet, sorry!'',
                 Called ''csu_liquid_ice_mass.calc_liquid_ice_mass'']"
  by (simp add: run_defs commit_defs ex_defs)

text \<open>
  Counterexample to C5 as stated: the method is \<^verbatim>\<open>'hidro'\<close>, the classification
  stage is disabled and the winter flag is on. The constructor raises nothing; the
  precipitation stage prints its notice.
\<close>

theorem C5_winter_run_signals_nothing:
  "kw_rain_method
     (ex_kwargs\<lparr>kw_fhc_flag := False, kw_winter := True, kw_dsd_flag := False\<rparr>) = ''hidro'' \<and>
   raised (init ex_externals ex_volume
     (ex_kwargs\<lparr>kw_fhc_flag := False, kw_winter := True, kw_dsd_flag := False\<rparr>)) = None \<and>
   out (result_engine (init ex_externals ex_volume
     (ex_kwargs\<lparr>kw_fhc_flag := False, kw_winter := True, kw_dsd_flag := False\<rparr>))) =
   [Called ''csu_kdp.calc_kdp_bringi'', Printed ''No sounding provided'',
    Printed ''Winter precip not enabled yet, sorry!'',
    Called ''csu_liquid_ice_mass.calc_liquid_ice_mass'']"
proof -
  have "kw_rain_method
     (ex_kwargs\<lparr>kw_fhc_flag := False, kw_winter := True, kw_dsd_flag := False\<rparr>) = ''hidro''"
    by (simp add: ex_kwargs_def DEFAULT_KW_def)
  with winter_run show ?thesis by auto
qed

subsection \<open>An unusable sounding\<close>

lemma get_sounding_unusable:
  assumes "sounding_unusable X s" and "snd_T e = None"
  shows "get_sounding X e s =
           Inr (e\<lparr>out := out e @
                    [Printed (case s of
                                NoSounding \<Rightarrow> ''No sounding provided''
                              | SoundingFile path \<Rightarrow> ''Sounding read fail''
                              | SoundingDict t z \<Rightarrow> ''Sounding in wrong data format'')],
                  T_flag := Some False,
                  radar_z := Some (get_z_from_radar X (radar e)), radar_T := Some None\<rparr>)"
proof -
  have step: "interpolate_sounding_to_radar X ((py_print msg e)\<lparr>T_flag := Some False\<rparr>) =
      Inr (e\<lparr>out := out e @ [Printed msg], T_flag := Some False,
             radar_z := Some (get_z_from_radar X (radar e)), radar_T := Some None\<rparr>)" for msg
    using assms(2)
    by (simp add: interpolate_sounding_to_radar_def check_sounding_for_montonic_def
          py_print_def Let_def)
  show ?thesis
  proof (cases s)
    case NoSounding
    with step show ?thesis by (simp add: get_sounding_def)
  next
    case (SoundingFile path)
    with assms(1) step show ?thesis
      by (cases "read_sounding X path")
         (auto simp: get_sounding_def sounding_unusable_def ingest_def)
  next
    case (SoundingDict t z)
    with assms(1) step show ?thesis
      by (simp add: get_sounding_def sounding_unusable_def ingest_def)
  qed
qed

lemma mass_stage_runs:
  assumes "radar_T d = Some T" and "radar_z d = Some z"
      and "rfields (radar d) (name_dz d) = Some fz" and "rfields (radar d) (name_dr d) = Some fr"
  shows "get_liquid_and_frozen_mass X d =
           pybind (add_field_to_radar_object
                     (called ''csu_liquid_ice_mass.calc_liquid_ice_mass'' d)
                     (fst (calc_liquid_ice_mass X (data fz) (data fr) (map (\<lambda>x. x / 1000) z) T))
                     ''MW'' ''g m-3'' ''Liquid Water Mass'' ''Liquid Water Mass'')
             (\<lambda>e2. add_field_to_radar_object e2
                     (snd (calc_liquid_ice_mass X (data fz) (data fr) (map (\<lambda>x. x / 1000) z) T))
                     ''MI'' ''g m-3'' ''Ice Water Mass'' ''Ice Water Mass'')"
    and "out (result_engine (get_liquid_and_frozen_mass X d)) =
           out d @ [Called ''csu_liquid_ice_mass.calc_liquid_ice_mass'']"
proof -
  let ?e1 = "called ''csu_liquid_ice_mass.calc_liquid_ice_mass'' d"
  let ?mw = "fst (calc_liquid_ice_mass X (data fz) (data fr) (map (\<lambda>x. x / 1000) z) T)"
  let ?mi = "snd (calc_liquid_ice_mass X (data fz) (data fr) (map (\<lambda>x. x / 1000) z) T)"
  show eq: "get_liquid_and_frozen_mass X d =
      pybind (add_field_to_radar_object ?e1 ?mw ''MW'' ''g m-3''
                ''Liquid Water Mass'' ''Liquid Water Mass'')
        (\<lambda>e2. add_field_to_radar_object e2 ?mi ''MI'' ''g m-3''
                ''Ice Water Mass'' ''Ice Water Mass'')"
    using assms
    by (simp add: get_liquid_and_frozen_mass_def field_data_def lookup_field_def
          case_prod_beta Let_def)
  have o1: "out ?e1 = out d @ [Called ''csu_liquid_ice_mass.calc_liquid_ice_mass'']"
    by (simp add: called_def)
  show "out (result_engine (get_liquid_and_frozen_mass X d)) =
           out d @ [Called ''csu_liquid_ice_mass.calc_liquid_ice_mass'']"
  proof (cases "add_field_to_radar_object ?e1 ?mw ''MW'' ''g m-3''
                ''Liquid Water Mass'' ''Liquid Water Mass''")
    case (Inl a)
    with commit_out [of ?e1 ?mw "''MW''" "''g m-3''" "''Liquid Water Mass''" "''Liquid Water Mass''"]
      eq o1 show ?thesis by (cases a) simp
  next
    case (Inr e2)
    with commit_out_Inr [OF Inr] eq o1
      commit_out [of e2 ?mi "''MI''" "''g m-3''" "''Ice Water Mass''" "''Ice Water Mass''"]
    show ?thesis by simp
  qed
qed


text \<open>
  C6, as the code has it. When no temperature profile can be read from the sounding
  (none given, a file that cannot be parsed, a source without temperatures),
  \<open>get_sounding\<close> on a fresh engine prints a notice and returns: the temperature flag
  is off, the temperature grid is \<^verbatim>\<open>None\<close> and the volume is unchanged. The
  liquid/ice mass stage is not skipped: with the temperature grid \<^verbatim>\<open>None\<close> it invokes
  the external mass algorithm, passing \<^verbatim>\<open>None\<close> for the temperature, and commits the
  two arrays that the algorithm returns.
\<close>

theorem C6_unusable_sounding_degrades_but_mass_stage_runs:
  assumes "sounding_unusable X s" and "snd_T e = None"
      and "radar_T d = Some None" and "radar_z d = Some z"
      and "rfields (radar d) (name_dz d) = Some fz" and "rfields (radar d) (name_dr d) = Some fr"
  shows "(\<exists>e'. get_sounding X e s = Inr e' \<and> radar_T e' = Some None \<and>
               T_flag e' = Some False \<and> radar e' = radar e \<and>
               (\<exists>msg. out e' = out e @ [Printed msg])) \<and>
         get_liquid_and_frozen_mass X d =
           pybind (add_field_to_radar_object
                     (called ''csu_liquid_ice_mass.calc_liquid_ice_mass'' d)
                     (fst (calc_liquid_ice_mass X (data fz) (data fr) (map (\<lambda>x. x / 1000) z) None))
                     ''MW'' ''g m-3'' ''Liquid Water Mass'' ''Liquid Water Mass'')
             (\<lambda>e2. add_field_to_radar_object e2
                     (snd (calc_liquid_ice_mass X (data fz) (data fr) (map (\<lambda>x. x / 1000) z) None))
                     ''MI'' ''g m-3'' ''Ice Water Mass'' ''Ice Water Mass'') \<and>
         out (result_engine (get_liquid_and_frozen_mass X d)) =
           out d @ [Called ''csu_liquid_ice_mass.calc_liquid_ice_mass'']"
proof -
  from get_sounding_unusable [OF assms(1,2)]
  have "\<exists>e'. get_sounding X e s = Inr e' \<and> radar_T e' = Some None \<and>
               T_flag e' = Some False \<and> radar e' = radar e \<and>
               (\<exists>msg. out e' = out e @ [Printed msg])"
    by simp
  with mass_stage_runs [OF assms(3-6), of X] show ?thesis
    by simp
qed

text \<open>Witness for C6: a sounding file that cannot be parsed.\<close>

theorem C6_unusable_sounding_witness:
  "sounding_unusable ex_externals (SoundingFile ''x'') \<and>
   (\<exists>e'. get_sounding ex_externals (init_attributes ex_volume ex_kwargs) (SoundingFile ''x'') =
           Inr e' \<and> radar_T e' = Some None \<and> T_flag e' = Some False) \<and>
   out (result_engine (get_liquid_and_frozen_mass ex_externals
          ((init_attributes ex_volume ex_kwargs)
             \<lparr>radar_z := Some [1, 2], radar_T := Some None\<rparr>))) =
     [Called ''csu_liquid_ice_mass.calc_liquid_ice_mass'']"
proof -
  let ?e = "init_attributes ex_volume ex_kwargs"
  let ?d = "?e\<lparr>radar_z := Some [1, 2], radar_T := Some None\<rparr>"
  have h1: "sounding_unusable ex_externals (SoundingFile ''x'')"
    by (simp add: sounding_unusable_def ex_externals_def)
  have h2: "snd_T ?e = None" and h3: "radar_T ?d = Some None"
    and h4: "radar_z ?d = Some [1, 2]"
    and h5: "rfields (radar ?d) (name_dz ?d) =
               Some (ex_field (Masked [30, 10] (MaskArr [False, True])))"
    and h6: "rfields (radar ?d) (name_dr ?d) = Some (ex_field (Masked [1, 2] NoMask))"
    by (simp_all add: ex_defs)
  have o: "out ?d = []"
    by (simp add: init_attributes_def)
  from C6_unusable_sounding_degrades_but_mass_stage_runs
         [OF h1 h2 h3 h4 h5 h6] h1 o
  show ?thesis by auto
qed

text \<open>The run of the constructor with a sounding file that cannot be parsed.\<close>

lemma unparseable_sounding_run:
  "\<exists>e. init ex_externals ex_volume (ex_kwargs\<lparr>kw_sounding := SoundingFile ''x''\<rparr>) = Inr e \<and>
        radar_T e = Some None \<and>
        out e = [Called ''csu_kdp.calc_kdp_bringi'', Printed ''Sounding read fail'',
                 Called ''csu_fhc.csu_fhc_summer'', Called ''csu_blended_rain.csu_hidro_rain'',
                 Called ''csu_dsd.calc_dsd'', Called ''csu_liquid_ice_mass.calc_liquid_ice_mass''] \<and>
        has_field (radar e) ''MW''"
  by (simp add: run_defs commit_defs ex_defs)

text \<open>
  Counterexample to C6 as stated: constructed with a sounding file that cannot be parsed,
  the engine has no temperature grid, and yet the run ends with the invocation of the
  mass algorithm, whose output is committed as \<open>MW\<close>.
\<close>

theorem C6_mass_stage_not_skipped:
  "sounding_unusable ex_externals (SoundingFile ''x'') \<and>
   radar_T (result_engine (init ex_externals ex_volume
      (ex_kwargs\<lparr>kw_sounding := SoundingFile ''x''\<rparr>))) = Some None \<and>
   out (result_engine (init ex_externals ex_volume
      (ex_kwargs\<lparr>kw_sounding := SoundingFile ''x''\<rparr>))) =
     [Called ''csu_kdp.calc_kdp_bringi'', Printed ''Sounding read fail'',
      Called ''csu_fhc.csu_fhc_summer'', Called ''csu_blended_rain.csu_hidro_rain'',
      Called ''csu_dsd.calc_dsd'', Called ''csu_liquid_ice_mass.calc_liquid_ice_mass''] \<and>
   has_field (radar (result_engine (init ex_externals ex_volume
      (ex_kwargs\<lparr>kw_sounding := SoundingFile ''x''\<rparr>)))) ''MW''"
proof -
  have "sounding_unusable ex_externals (SoundingFile ''x'')"
    by (simp add: sounding_unusable_def ex_externals_def)
  with unparseable_sounding_run show ?thesis by auto
qed

subsection \<open>Quality control on a reflectivity without mask\<close>

lemma length_filled: "length (filled a fv) = length (arr_values a)"
  by (cases a; cases "case a of Masked vs m \<Rightarrow> m | _ \<Rightarrow> NoMask") auto

lemma map_times_one: "map ((*) 1) xs = (xs :: real list)"
  by (induction xs) simp_all

text \<open>
  What does hold: when the data of the reflectivity field is a masked array, \<open>do_qc\<close>
  returns, and the mask of the reflectivity field is afterwards, gate for gate, the union
  of the insect mask, the phase-noise mask and the speckle mask, the last one computed on
  the reflectivity with the bad-data sentinel at the gates of the first two. The filters
  are taken to return masks of the shape of the reflectivity.
\<close>

lemma do_qc_sets_union_mask:
  assumes fz: "rfields (radar e) (name_dz e) = Some fz"
      and fr: "rfields (radar e) (name_dr e) = Some fr"
      and fs: "rfields (radar e) (name_sdp e) = Some fs"
      and masked: "hasattr_mask (data fz)" and wf: "wf_array (data fz)"
      and cfg: "dz_range e = Some dzr" "dr_thresh e = Some drt" "speckle e = Some n"
      and im: "insect_filter X (filled (data fz) (bad e)) (filled (data fr) (bad e))
                 dzr drt (bad e) = insect_mask"
      and pm: "differential_phase_filter X (filled (data fs) (bad e)) (thresh_sdp e) = sdp_mask"
      and sm: "despeckle X
                 (map2 (\<lambda>x b. if b then bad e else x) (filled (data fz) (bad e))
                    (map2 (\<or>) insect_mask sdp_mask))
                 (bad e) n = mask_ds"
      and len: "length insect_mask = length (arr_values (data fz))"
               "length sdp_mask = length (arr_values (data fz))"
               "length mask_ds = length (arr_values (data fz))"
  shows "\<exists>e' f. do_qc X e = Inr e' \<and> rfields (radar e') (name_dz e) = Some f \<and>
           arr_values (data f) = arr_values (data fz) \<and>
           getmaskarray (data f) = map2 (\<or>) (map2 (\<or>) insect_mask sdp_mask) mask_ds"
proof -
  let ?e1 = "vprint ''Masking insects and high SDP,'' e"
  let ?final = "map2 (\<or>) (map2 (\<or>) insect_mask sdp_mask) mask_ds"
  from masked obtain vs m where d: "data fz = Masked vs m"
    by (cases "data fz") auto
  have lf: "length ?final = length vs"
    using len d by simp
  have set: "setattr_mask (data fz) (MaskArr ?final) = Inr (Masked vs (MaskArr ?final))"
    using d wf lf by (cases m) (simp_all add: wf_array_def flat_assign_same_length)
  have x: "extract_unmasked_data ?e1 (name_dz e) None = Inr (filled (data fz) (bad e))"
    "extract_unmasked_data ?e1 (name_dr e) None = Inr (filled (data fr) (bad e))"
    "extract_unmasked_data ?e1 (name_sdp e) None = Inr (filled (data fs) (bad e))"
    using extract_unmasked_data_eq [of ?e1 "name_dz e" fz]
      extract_unmasked_data_eq [of ?e1 "name_dr e" fr]
      extract_unmasked_data_eq [of ?e1 "name_sdp e" fs] fz fr fs
    by (simp_all add: vprint_sel)
  have "do_qc X e = Inr ((called ''csu_misc.despeckle''
           (vprint ''Despeckling'' (called ''csu_misc.differential_phase_filter''
              (called ''csu_misc.insect_filter'' ?e1))))
         \<lparr>radar := (radar e)\<lparr>rfields := (rfields (radar e))
             (name_dz e \<mapsto> fz\<lparr>data := Masked vs (MaskArr ?final)\<rparr>)\<rparr>\<rparr>)"
    using fz fr fs cfg im pm sm len set x
    by (simp add: do_qc_def has_field_def Let_def vprint_sel called_sel map_times_one
          lookup_field_def)
       (simp add: logical_or_def assign_where_def length_filled)
  then show ?thesis
    using d by simp
qed


text \<open>
  The run of the constructor on the volume whose reflectivity is an ndarray, with quality
  control enabled.
\<close>

lemma qc_run_on_plain_reflectivity:
  "\<exists>e. init ex_externals ex_volume_plain (ex_kwargs\<lparr>kw_qc_flag := True\<rparr>) =
          Inl (AttributeError ''mask'', e) \<and>
        rfields (radar e) ''DZ'' = Some (ex_field (Plain [30, 10])) \<and>
        out e = [Called ''csu_kdp.calc_kdp_bringi'', Printed ''No sounding provided'',
                 Called ''csu_misc.insect_filter'',
                 Called ''csu_misc.differential_phase_filter'',
                 Called ''csu_misc.despeckle'']"
  by (simp add: run_defs commit_defs ex_defs)

text \<open>
  C3, at an input where the code departs from it. The reflectivity of the volume is an
  ndarray, quality control is enabled and differential phase is bound, so that the name
  check commits the phase-noise field before quality control runs. The three filters are
  invoked; then the assignment of the final mask raises \<^verbatim>\<open>AttributeError\<close>, since an
  ndarray takes no attribute \<^verbatim>\<open>mask\<close>. The reflectivity field is left without mask.
\<close>

theorem C3_qc_raises_on_unmasked_reflectivity:
  "raised (init ex_externals ex_volume_plain (ex_kwargs\<lparr>kw_qc_flag := True\<rparr>)) =
     Some (AttributeError ''mask'') \<and>
   rfields (radar (result_engine
     (init ex_externals ex_volume_plain (ex_kwargs\<lparr>kw_qc_flag := True\<rparr>)))) ''DZ'' =
     Some (ex_field (Plain [30, 10])) \<and>
   out (result_engine
     (init ex_externals ex_volume_plain (ex_kwargs\<lparr>kw_qc_flag := True\<rparr>))) =
     [Called ''csu_kdp.calc_kdp_bringi'', Printed ''No sounding provided'',
      Called ''csu_misc.insect_filter'', Called ''csu_misc.differential_phase_filter'',
      Called ''csu_misc.despeckle'']"
  using qc_run_on_plain_reflectivity by auto

end
